theory Spec2Isabelle
  imports Complex_Main
begin

section \<open>Python values used by the two scripts\<close>

text \<open>
  Strings are byte lists holding the UTF-8 encoding of the Python text, so the emoji of
  the progress messages are the three or four bytes of their encoding.
\<close>

abbreviation nl :: string where
  "nl \<equiv> [CHR 0x0A]"

abbreviation check_mark :: string where
  "check_mark \<equiv> [CHR 0xE2, CHR 0x9C, CHR 0x85]"

abbreviation cross_mark :: string where
  "cross_mark \<equiv> [CHR 0xE2, CHR 0x9D, CHR 0x8C]"

abbreviation floppy_disk :: string where
  "floppy_disk \<equiv> [CHR 0xF0, CHR 0x9F, CHR 0x92, CHR 0xBE]"

text \<open>
  The exceptions that the modelled code can meet. \<open>SystemExit\<close> is what \<open>exit(n)\<close>
  raises; it derives from \<open>BaseException\<close> only, so \<open>except Exception\<close> lets it through.
  \<open>APIError\<close> stands for whatever the chat-completion client raises (an \<open>Exception\<close>).
\<close>

datatype exn =
    SystemExit nat
  | KeyError string
  | IndexError
  | TypeError
  | EOFError
  | APIError string

fun is_Exception :: "exn \<Rightarrow> bool" where
  "is_Exception (SystemExit n) = False"
| "is_Exception e = True"

text \<open>\<open>str(n)\<close> of a natural number: its decimal digits.\<close>

fun dec :: "nat \<Rightarrow> string" where
  "dec n = (if n < 10 then [char_of (48 + n)] else dec (n div 10) @ [char_of (48 + n mod 10)])"

text \<open>
  \<open>str(e)\<close>. A \<open>SystemExit\<close> shows its code. For \<open>KeyError\<close> Python shows the \<open>repr\<close> of the key; the quoting below is
  that \<open>repr\<close> for keys without quotes, backslashes or unprintable characters.
\<close>

fun exn_str :: "exn \<Rightarrow> string" where
  "exn_str (SystemExit n) = dec n"
| "exn_str (KeyError k) = [CHR 0x27] @ k @ [CHR 0x27]"
| "exn_str IndexError = ''list index out of range''"
| "exn_str TypeError = ''unsupported operand type(s) for +: 'NoneType' and 'str'' @ [CHR 0x27]"
| "exn_str EOFError = ''EOF when reading a line''"
| "exn_str (APIError m) = m"

text \<open>\<open>str(v)\<close> of a value that is a string or \<open>None\<close>, as f-strings and \<open>print\<close> apply it.\<close>

fun py_str :: "string option \<Rightarrow> string" where
  "py_str None = ''None''"
| "py_str (Some s) = s"

text \<open>A dict keeps insertion order: assigning to a present key keeps the key's place.\<close>

fun dict_set :: "('k \<times> 'v) list \<Rightarrow> 'k \<Rightarrow> 'v \<Rightarrow> ('k \<times> 'v) list" where
  "dict_set [] k v = [(k, v)]"
| "dict_set ((k', v') # d) k v = (if k' = k then (k, v) # d else (k', v') # dict_set d k v)"

text \<open>\<open>sep.join(xs)\<close>.\<close>

fun py_join :: "string \<Rightarrow> string list \<Rightarrow> string" where
  "py_join sep [] = []"
| "py_join sep [x] = x"
| "py_join sep (x # y # ys) = x @ sep @ py_join sep (y # ys)"

text \<open>
  \<open>str.upper\<close> and \<open>str.lower\<close> on ASCII letters; bytes outside \<open>a-z\<close>, \<open>A-Z\<close> stay as
  they are, which is what Python does for ASCII text.
\<close>

definition upper_char :: "char \<Rightarrow> char" where
  "upper_char c =
     (let n = (of_char c :: nat) in if 97 \<le> n \<and> n \<le> 122 then char_of (n - 32) else c)"

definition lower_char :: "char \<Rightarrow> char" where
  "lower_char c =
     (let n = (of_char c :: nat) in if 65 \<le> n \<and> n \<le> 90 then char_of (n + 32) else c)"

definition py_upper :: "string \<Rightarrow> string" where
  "py_upper s = map upper_char s"

definition py_lower :: "string \<Rightarrow> string" where
  "py_lower s = map lower_char s"

text \<open>\<open>s.replace(a, b)\<close> for a one-character \<open>a\<close>.\<close>

definition py_replace_char :: "char \<Rightarrow> string \<Rightarrow> string \<Rightarrow> string" where
  "py_replace_char a b s = concat (map (\<lambda>c. if c = a then b else [c]) s)"

subsection \<open>Whitespace stripping\<close>

text \<open>
  The UTF-8 encodings of the code points for which \<open>str.isspace\<close> holds:
  U+0009..U+000D, U+001C..U+0020, U+0085, U+00A0, U+1680, U+2000..U+200A, U+2028, U+2029,
  U+202F, U+205F, U+3000. \<open>str.strip()\<close> removes these from both ends.
\<close>

definition py_whitespace :: "string list" where
  "py_whitespace =
    [[CHR 0x09], [CHR 0x0A], [CHR 0x0B], [CHR 0x0C], [CHR 0x0D],
     [CHR 0x1C], [CHR 0x1D], [CHR 0x1E], [CHR 0x1F], [CHR 0x20],
     [CHR 0xC2, CHR 0x85], [CHR 0xC2, CHR 0xA0], [CHR 0xE1, CHR 0x9A, CHR 0x80],
     [CHR 0xE2, CHR 0x80, CHR 0x80], [CHR 0xE2, CHR 0x80, CHR 0x81],
     [CHR 0xE2, CHR 0x80, CHR 0x82], [CHR 0xE2, CHR 0x80, CHR 0x83],
     [CHR 0xE2, CHR 0x80, CHR 0x84], [CHR 0xE2, CHR 0x80, CHR 0x85],
     [CHR 0xE2, CHR 0x80, CHR 0x86], [CHR 0xE2, CHR 0x80, CHR 0x87],
     [CHR 0xE2, CHR 0x80, CHR 0x88], [CHR 0xE2, CHR 0x80, CHR 0x89],
     [CHR 0xE2, CHR 0x80, CHR 0x8A], [CHR 0xE2, CHR 0x80, CHR 0xA8],
     [CHR 0xE2, CHR 0x80, CHR 0xA9], [CHR 0xE2, CHR 0x80, CHR 0xAF],
     [CHR 0xE2, CHR 0x81, CHR 0x9F], [CHR 0xE3, CHR 0x80, CHR 0x80]]"

definition leading_space :: "string \<Rightarrow> string option" where
  "leading_space s = find (\<lambda>p. take (length p) s = p) py_whitespace"

definition trailing_space :: "string \<Rightarrow> string option" where
  "trailing_space s = find (\<lambda>p. drop (length s - length p) s = p) py_whitespace"

function lstrip :: "string \<Rightarrow> string" where
  "lstrip s = (case leading_space s of None \<Rightarrow> s | Some p \<Rightarrow> lstrip (drop (length p) s))"
  by pat_completeness auto
termination
proof (relation "measure length")
  show "wf (measure length)"
    by simp
next
  fix s p
  assume found: "leading_space s = Some p"
  then have mem: "p \<in> set py_whitespace" and pre: "take (length p) s = p"
    by (auto simp: leading_space_def find_Some_iff)
  from mem have "p \<noteq> []"
    by (auto simp: py_whitespace_def)
  moreover from pre have "length (take (length p) s) = length p"
    by (rule arg_cong)
  then have "length p \<le> length s"
    by simp
  ultimately show "(drop (length p) s, s) \<in> measure length"
    by (cases p) auto
qed

text \<open>
  At the right end the same encodings are matched as suffixes; in well-formed UTF-8 a
  suffix that equals the encoding of a code point is that code point.
\<close>

function rstrip :: "string \<Rightarrow> string" where
  "rstrip s =
     (case trailing_space s of None \<Rightarrow> s | Some p \<Rightarrow> rstrip (take (length s - length p) s))"
  by pat_completeness auto
termination
proof (relation "measure length")
  show "wf (measure length)"
    by simp
next
  fix s p
  assume found: "trailing_space s = Some p"
  then have mem: "p \<in> set py_whitespace" and suf: "drop (length s - length p) s = p"
    by (auto simp: trailing_space_def find_Some_iff)
  from mem have ne: "p \<noteq> []"
    by (auto simp: py_whitespace_def)
  from suf have "length p = length s - (length s - length p)"
    by (metis length_drop)
  with ne have "s \<noteq> []"
    by auto
  with ne show "(take (length s - length p) s, s) \<in> measure length"
    by (cases p) auto
qed

definition py_strip :: "string \<Rightarrow> string" where
  "py_strip s = rstrip (lstrip s)"

subsection \<open>Dates\<close>

text \<open>
  \<open>datetime.now()\<close> returns the fields below. \<open>strftime\<close> interprets the directives the
  scripts use: every field is zero-padded to two digits, the year to four (which is the
  whole year for the years 1000 to 9999).
\<close>

record datetime =
  year :: nat
  month :: nat
  day :: nat
  hour :: nat
  minute :: nat
  second :: nat
  microsecond :: nat

definition zfill :: "nat \<Rightarrow> string \<Rightarrow> string" where
  "zfill k s = replicate (k - length s) (CHR ''0'') @ s"

fun directive :: "char \<Rightarrow> datetime \<Rightarrow> string" where
  "directive c d =
     (if c = CHR ''Y'' then zfill 4 (dec (year d))
      else if c = CHR ''m'' then zfill 2 (dec (month d))
      else if c = CHR ''d'' then zfill 2 (dec (day d))
      else if c = CHR ''H'' then zfill 2 (dec (hour d))
      else if c = CHR ''M'' then zfill 2 (dec (minute d))
      else if c = CHR ''S'' then zfill 2 (dec (second d))
      else [CHR ''%'', c])"

fun strftime :: "string \<Rightarrow> datetime \<Rightarrow> string" where
  "strftime [] d = []"
| "strftime [c] d = [c]"
| "strftime (c # x # cs) d =
     (if c = CHR ''%'' then directive x d @ strftime cs d else c # strftime (x # cs) d)"

text \<open>\<open>str(d)\<close>: ISO format with a space; the fraction is left out when it is zero.\<close>

definition datetime_str :: "datetime \<Rightarrow> string" where
  "datetime_str d =
     strftime ''%Y-%m-%d %H:%M:%S'' d @
     (if microsecond d = 0 then [] else ''.'' @ zfill 6 (dec (microsecond d)))"

section \<open>The world the scripts act on\<close>

text \<open>
  \<open>Config\<close> comes from a module that is not part of the two scripts: its attributes and
  the result of its validation are parameters here.
\<close>

record config =
  validate_setup :: bool
  API_KEY :: string
  API_BASE :: string
  OPENAI_MODEL :: string
  AGENT_TEMPERATURE :: real
  AGENT_MAX_TOKENS :: int
  USE_GROQ :: bool
  summary_lines :: "string list"

text \<open>
  A chat-completion request, and what the client gives back: it raises, or it returns a
  response whose \<open>choices\<close> carry a message content each (\<open>None\<close> is allowed by the
  client's types).
\<close>

record request =
  req_model :: string
  req_temperature :: real
  req_max_tokens :: int
  req_messages :: "(string \<times> string) list"

datatype reply = Raises string | Reply "string option list"

text \<open>
  The environment: the backend answers a request knowing the requests made before it
  (so a backend may answer the same request differently over time); the clock gives
  the value of the n-th call of \<open>datetime.now()\<close>.
\<close>

record env =
  backend :: "request list \<Rightarrow> request \<Rightarrow> reply"
  clock :: "nat \<Rightarrow> datetime"
  Config :: config

text \<open>
  The observable state: what was written to standard output (one entry per write),
  the exceptions whose traceback went to standard error, the requests issued to the
  backend, the file system, the number of clock reads so far, the process environment
  and the inputs of each crew kickoff.
\<close>

record world =
  stdout :: "string list"
  stderr :: "exn list"
  calls :: "request list"
  files :: "string \<rightharpoonup> string"
  ticks :: nat
  environ :: "string \<rightharpoonup> string"
  kickoffs :: "(string \<times> string) list list"

definition py_print :: "string \<Rightarrow> world \<Rightarrow> world" where
  "py_print s w = w\<lparr>stdout := stdout w @ [s @ nl]\<rparr>"

definition now :: "env \<Rightarrow> world \<Rightarrow> datetime \<times> world" where
  "now e w = (clock e (ticks w), w\<lparr>ticks := Suc (ticks w)\<rparr>)"

definition chat_completions_create :: "env \<Rightarrow> request \<Rightarrow> world \<Rightarrow> reply \<times> world" where
  "chat_completions_create e req w = (backend e (calls w) req, w\<lparr>calls := calls w @ [req]\<rparr>)"

text \<open>\<open>response.choices[0].message.content\<close>: an empty \<open>choices\<close> is an \<open>IndexError\<close>.\<close>

definition first_content :: "string option list \<Rightarrow> exn + string option" where
  "first_content choices = (case choices of [] \<Rightarrow> Inl IndexError | c # _ \<Rightarrow> Inr c)"

section \<open>The scenario tester\<close>

record agents =
  agent_research :: string
  agent_analysis :: string
  agent_blueprint :: string
  agent_review :: string

record scenario =
  title :: string
  agents :: agents
  context_text :: string

record ScenarioWorkflow =
  client :: "string \<times> string"
  outputs :: "(string \<times> string option) list"
  model :: string
  scenario_type :: string
  scenarios :: "(string \<times> scenario) list"

definition research_prompts :: "(string \<times> string) list" where
  "research_prompts =
    [(''conference'',
      ''You are a conference research specialist. Research successful AI/ML conferences '' @ nl @
      ''and provide insights on: keynote speakers, workshop formats, networking events, and '' @
      ''sponsorship models.'' @ nl @ ''Analyze 3 similar conferences. Be concise - 150 words.''),
     (''marketing'',
      ''You are a market research analyst. Research the B2B SaaS market and provide '' @ nl @
      ''insights on: target personas, competitor strategies, content marketing trends, and '' @
      ''channel effectiveness.'' @ nl @ ''Focus on data-driven insights. Be concise - 150 words.''),
     (''research_paper'',
      ''You are a literature review specialist. Research existing papers on AI ethics '' @ nl @
      ''in healthcare and provide: key themes, major contributors, methodologies used, and '' @
      ''recent developments.'' @ nl @ ''Identify 3-4 seminal papers. Be concise - 150 words.''),
     (''software'',
      ''You are a tech stack researcher. Research modern e-commerce architectures and '' @ nl @
      ''provide insights on: microservices patterns, database choices, API designs, and '' @
      ''scalability solutions.'' @ nl @ ''Compare 3 architecture approaches. Be concise - 150 words.'')]"

definition research_user_messages :: "(string \<times> string) list" where
  "research_user_messages =
    [(''conference'',
      ''Research successful AI/ML conferences and identify best practices.''),
     (''marketing'',
      ''Research the B2B SaaS market and identify effective marketing strategies.''),
     (''research_paper'',
      ''Research existing literature on AI ethics in healthcare.''),
     (''software'',
      ''Research modern e-commerce platform architectures and technologies.'')]"

definition analysis_prompts :: "(string \<times> string) list" where
  "analysis_prompts =
    [(''conference'',
      ''You are an attendee and speaker analyst. Based on the research, identify:'' @ nl @
      ''target attendee profiles, speaker selection criteria, and engagement opportunities.'' @ nl @
      ''Provide 3 key insights. Be concise - 150 words.''),
     (''marketing'',
      ''You are a customer insights specialist. Based on the research, identify:'' @ nl @
      ''customer pain points, buying journey stages, and value proposition opportunities.'' @ nl @
      ''Provide 3 actionable insights. Be concise - 150 words.''),
     (''research_paper'',
      ''You are a research gap analyst. Based on the literature review, identify:'' @ nl @
      ''unexplored areas, methodological improvements, and potential contributions.'' @ nl @
      ''Highlight 3 research gaps. Be concise - 150 words.''),
     (''software'',
      ''You are a requirements analyst. Based on the research, identify:'' @ nl @
      ''critical system requirements, performance needs, and integration challenges.'' @ nl @
      ''List 3 key requirements. Be concise - 150 words.'')]"

definition blueprint_prompts :: "(string \<times> string) list" where
  "blueprint_prompts =
    [(''conference'',
      ''You are an agenda designer. Create a detailed 3-day conference agenda including:'' @ nl @
      ''Day-by-day schedule with timings, keynote topics, workshop themes, and networking '' @
      ''events.'' @ nl @ ''Be specific and practical - 150 words.''),
     (''marketing'',
      ''You are a marketing strategist. Design a comprehensive strategy including:'' @ nl @
      ''Campaign objectives, key messages, channel mix, content calendar outline, and '' @
      ''success metrics.'' @ nl @ ''Be specific and actionable - 150 words.''),
     (''research_paper'',
      ''You are a paper structure designer. Create a detailed outline including:'' @ nl @
      ''Section titles, key arguments per section, methodology approach, and expected '' @
      ''contributions.'' @ nl @ ''Follow academic standards - 150 words.''),
     (''software'',
      ''You are a system architect. Design the architecture including:'' @ nl @
      ''System components, data flow, API structure, deployment strategy, and scalability '' @
      ''approach.'' @ nl @ ''Include specific technologies - 150 words.'')]"

definition review_prompts :: "(string \<times> string) list" where
  "review_prompts =
    [(''conference'',
      ''You are a conference director. Review the agenda and provide:'' @ nl @
      ''Risk mitigation strategies, budget considerations, and success metrics.'' @ nl @
      ''Give 3 strategic recommendations - 150 words.''),
     (''marketing'',
      ''You are a CMO reviewer. Review the strategy and provide:'' @ nl @
      ''Budget allocation advice, risk factors, and optimization opportunities.'' @ nl @
      ''Give 3 strategic improvements - 150 words.''),
     (''research_paper'',
      ''You are an academic editor. Review the outline and provide:'' @ nl @
      ''Strengths, potential weaknesses, and publication strategy recommendations.'' @ nl @
      ''Give 3 improvement suggestions - 150 words.''),
     (''software'',
      ''You are a CTO reviewer. Review the architecture and provide:'' @ nl @
      ''Security considerations, cost optimization, and deployment recommendations.'' @ nl @
      ''Give 3 technical improvements - 150 words.'')]"

definition scenarios_table :: "(string \<times> scenario) list" where
  "scenarios_table =
    [(''conference'',
      \<lparr>title = ''3-Day AI/ML Conference Planning'',
       agents = \<lparr>agent_research = ''Conference Research Specialist'',
                 agent_analysis = ''Attendee & Speaker Analyst'',
                 agent_blueprint = ''Agenda Designer'',
                 agent_review = ''Conference Director''\<rparr>,
       context_text = ''planning a 3-day AI/ML conference for 500 attendees''\<rparr>),
     (''marketing'',
      \<lparr>title = ''Product Marketing Strategy'',
       agents = \<lparr>agent_research = ''Market Research Analyst'',
                 agent_analysis = ''Customer Insights Specialist'',
                 agent_blueprint = ''Marketing Strategist'',
                 agent_review = ''CMO Reviewer''\<rparr>,
       context_text = ''creating a marketing strategy for a new B2B SaaS product''\<rparr>),
     (''research_paper'',
      \<lparr>title = ''Research Paper Outline'',
       agents = \<lparr>agent_research = ''Literature Review Specialist'',
                 agent_analysis = ''Research Gap Analyst'',
                 agent_blueprint = ''Paper Structure Designer'',
                 agent_review = ''Academic Editor''\<rparr>,
       context_text = ''outlining a research paper on AI ethics in healthcare''\<rparr>),
     (''software'',
      \<lparr>title = ''Software Architecture Planning'',
       agents = \<lparr>agent_research = ''Tech Stack Researcher'',
                 agent_analysis = ''Requirements Analyst'',
                 agent_blueprint = ''System Architect'',
                 agent_review = ''CTO Reviewer''\<rparr>,
       context_text = ''designing architecture for a scalable e-commerce platform''\<rparr>)]"

text \<open>
  The state a method acts on is the workflow object together with the world, and a
  method returns normally or raises.
\<close>

type_synonym state = "ScenarioWorkflow \<times> world"

type_synonym outcome = "(exn + unit) \<times> state"

definition and_then :: "outcome \<Rightarrow> (state \<Rightarrow> outcome) \<Rightarrow> outcome" where
  "and_then r f = (case r of (Inl x, st) \<Rightarrow> (Inl x, st) | (Inr u, st) \<Rightarrow> f st)"

text \<open>\<open>ScenarioWorkflow.__init__\<close>: \<open>exit(1)\<close> raises \<open>SystemExit\<close>.\<close>

definition ScenarioWorkflow_init :: "env \<Rightarrow> string \<Rightarrow> world \<Rightarrow> (exn + ScenarioWorkflow) \<times> world" where
  "ScenarioWorkflow_init e scenario_type_arg w =
     (if \<not> validate_setup (Config e)
      then (Inl (SystemExit 1), py_print ''ERROR: Configuration validation failed!'' w)
      else (Inr \<lparr>client = (API_KEY (Config e), API_BASE (Config e)),
                 outputs = [],
                 model = OPENAI_MODEL (Config e),
                 scenario_type = scenario_type_arg,
                 scenarios = scenarios_table\<rparr>, w))"

definition phase_research :: "env \<Rightarrow> scenario \<Rightarrow> state \<Rightarrow> outcome" where
  "phase_research e scenario st =
     (let (self, w) = st;
          w = py_print (nl @ replicate 80 (CHR ''='')) w;
          w = py_print ''PHASE 1: RESEARCH'' w;
          w = py_print (replicate 80 (CHR ''='')) w;
          w = py_print (''['' @ agent_research (agents scenario) @ '' is working...]'') w
      in case map_of research_prompts (scenario_type self) of
           None \<Rightarrow> (Inl (KeyError (scenario_type self)), self, w)
         | Some system_prompt \<Rightarrow>
        (case map_of research_user_messages (scenario_type self) of
           None \<Rightarrow> (Inl (KeyError (scenario_type self)), self, w)
         | Some user_message \<Rightarrow>
        (case chat_completions_create e
                \<lparr>req_model = model self,
                 req_temperature = AGENT_TEMPERATURE (Config e),
                 req_max_tokens = AGENT_MAX_TOKENS (Config e),
                 req_messages = [(''system'', system_prompt), (''user'', user_message)]\<rparr> w of
           (Raises m, w) \<Rightarrow> (Inl (APIError m), self, w)
         | (Reply choices, w) \<Rightarrow>
        (case first_content choices of
           Inl x \<Rightarrow> (Inl x, self, w)
         | Inr content \<Rightarrow>
             (let self = self\<lparr>outputs := dict_set (outputs self) ''research'' content\<rparr>;
                  w = py_print (nl @ ''['' @ agent_research (agents scenario) @ '' Output]'') w;
                  w = py_print (py_str content) w
              in (Inr (), self, w))))))"

definition phase_analysis :: "env \<Rightarrow> scenario \<Rightarrow> state \<Rightarrow> outcome" where
  "phase_analysis e scenario st =
     (let (self, w) = st;
          w = py_print (nl @ replicate 80 (CHR ''='')) w;
          w = py_print ''PHASE 2: ANALYSIS'' w;
          w = py_print (replicate 80 (CHR ''='')) w;
          w = py_print (''['' @ agent_analysis (agents scenario) @ '' is working...]'') w
      in case map_of analysis_prompts (scenario_type self) of
           None \<Rightarrow> (Inl (KeyError (scenario_type self)), self, w)
         | Some system_prompt \<Rightarrow>
        (case map_of (outputs self) ''research'' of
           None \<Rightarrow> (Inl (KeyError ''research''), self, w)
         | Some research \<Rightarrow>
        (case chat_completions_create e
                \<lparr>req_model = model self,
                 req_temperature = AGENT_TEMPERATURE (Config e),
                 req_max_tokens = AGENT_MAX_TOKENS (Config e),
                 req_messages =
                   [(''system'', system_prompt),
                    (''user'', ''Research findings:'' @ nl @ py_str research @ nl @ nl @
                               ''Provide your analysis.'')]\<rparr> w of
           (Raises m, w) \<Rightarrow> (Inl (APIError m), self, w)
         | (Reply choices, w) \<Rightarrow>
        (case first_content choices of
           Inl x \<Rightarrow> (Inl x, self, w)
         | Inr content \<Rightarrow>
             (let self = self\<lparr>outputs := dict_set (outputs self) ''analysis'' content\<rparr>;
                  w = py_print (nl @ ''['' @ agent_analysis (agents scenario) @ '' Output]'') w;
                  w = py_print (py_str content) w
              in (Inr (), self, w))))))"

definition phase_blueprint :: "env \<Rightarrow> scenario \<Rightarrow> state \<Rightarrow> outcome" where
  "phase_blueprint e scenario st =
     (let (self, w) = st;
          w = py_print (nl @ replicate 80 (CHR ''='')) w;
          w = py_print ''PHASE 3: BLUEPRINT/DESIGN'' w;
          w = py_print (replicate 80 (CHR ''='')) w;
          w = py_print (''['' @ agent_blueprint (agents scenario) @ '' is working...]'') w
      in case map_of blueprint_prompts (scenario_type self) of
           None \<Rightarrow> (Inl (KeyError (scenario_type self)), self, w)
         | Some system_prompt \<Rightarrow>
        (case map_of (outputs self) ''analysis'' of
           None \<Rightarrow> (Inl (KeyError ''analysis''), self, w)
         | Some analysis \<Rightarrow>
        (case chat_completions_create e
                \<lparr>req_model = model self,
                 req_temperature = AGENT_TEMPERATURE (Config e),
                 req_max_tokens = AGENT_MAX_TOKENS (Config e),
                 req_messages =
                   [(''system'', system_prompt),
                    (''user'', ''Analysis:'' @ nl @ py_str analysis @ nl @ nl @
                               ''Create your design/blueprint.'')]\<rparr> w of
           (Raises m, w) \<Rightarrow> (Inl (APIError m), self, w)
         | (Reply choices, w) \<Rightarrow>
        (case first_content choices of
           Inl x \<Rightarrow> (Inl x, self, w)
         | Inr content \<Rightarrow>
             (let self = self\<lparr>outputs := dict_set (outputs self) ''blueprint'' content\<rparr>;
                  w = py_print (nl @ ''['' @ agent_blueprint (agents scenario) @ '' Output]'') w;
                  w = py_print (py_str content) w
              in (Inr (), self, w))))))"

definition phase_review :: "env \<Rightarrow> scenario \<Rightarrow> state \<Rightarrow> outcome" where
  "phase_review e scenario st =
     (let (self, w) = st;
          w = py_print (nl @ replicate 80 (CHR ''='')) w;
          w = py_print ''PHASE 4: REVIEW & RECOMMENDATIONS'' w;
          w = py_print (replicate 80 (CHR ''='')) w;
          w = py_print (''['' @ agent_review (agents scenario) @ '' is working...]'') w
      in case map_of review_prompts (scenario_type self) of
           None \<Rightarrow> (Inl (KeyError (scenario_type self)), self, w)
         | Some system_prompt \<Rightarrow>
        (case map_of (outputs self) ''blueprint'' of
           None \<Rightarrow> (Inl (KeyError ''blueprint''), self, w)
         | Some blueprint \<Rightarrow>
        (case chat_completions_create e
                \<lparr>req_model = model self,
                 req_temperature = AGENT_TEMPERATURE (Config e),
                 req_max_tokens = AGENT_MAX_TOKENS (Config e),
                 req_messages =
                   [(''system'', system_prompt),
                    (''user'', ''Blueprint:'' @ nl @ py_str blueprint @ nl @ nl @
                               ''Provide your review.'')]\<rparr> w of
           (Raises m, w) \<Rightarrow> (Inl (APIError m), self, w)
         | (Reply choices, w) \<Rightarrow>
        (case first_content choices of
           Inl x \<Rightarrow> (Inl x, self, w)
         | Inr content \<Rightarrow>
             (let self = self\<lparr>outputs := dict_set (outputs self) ''review'' content\<rparr>;
                  w = py_print (nl @ ''['' @ agent_review (agents scenario) @ '' Output]'') w;
                  w = py_print (py_str content) w
              in (Inr (), self, w))))))"

text \<open>
  The loop of \<open>print_summary\<close> over the four phase names, on the text written to the file
  so far. \<open>self.outputs[phase] + "\n"\<close> raises \<open>KeyError\<close> for a missing phase and
  \<open>TypeError\<close> for a content that is \<open>None\<close>; the text written before stays in the file.
\<close>

fun write_phases ::
  "(string \<times> string option) list \<Rightarrow> string list \<Rightarrow> string \<Rightarrow> exn option \<times> string" where
  "write_phases outs [] buf = (None, buf)"
| "write_phases outs (phase # rest) buf =
     (let buf = buf @ nl @ replicate 80 (CHR ''-'') @ nl;
          buf = buf @ py_upper phase @ '' PHASE'' @ nl;
          buf = buf @ replicate 80 (CHR ''-'') @ nl
      in case map_of outs phase of
           None \<Rightarrow> (Some (KeyError phase), buf)
         | Some None \<Rightarrow> (Some TypeError, buf)
         | Some (Some text) \<Rightarrow> write_phases outs rest (buf @ text @ nl))"

definition print_summary :: "env \<Rightarrow> scenario \<Rightarrow> state \<Rightarrow> outcome" where
  "print_summary e scenario st =
     (let (self, w) = st;
          w = py_print (nl @ replicate 80 (CHR ''='')) w;
          w = py_print ''WORKFLOW SUMMARY'' w;
          w = py_print (replicate 80 (CHR ''='')) w;
          w = py_print
                (nl @ ''Scenario: '' @ title scenario @ nl @
                 ''Context: '' @ context_text scenario @ nl @ nl @
                 ''Agents Used:'' @ nl @
                 ''1. '' @ agent_research (agents scenario) @ '' - Gathered initial research'' @ nl @
                 ''2. '' @ agent_analysis (agents scenario) @ '' - Analyzed findings'' @ nl @
                 ''3. '' @ agent_blueprint (agents scenario) @ '' - Created the design/plan'' @ nl @
                 ''4. '' @ agent_review (agents scenario) @ '' - Provided strategic review'' @ nl @ nl @
                 ''Each agent built upon the previous agent's output, demonstrating'' @ nl @
                 ''AutoGen's sequential workflow capabilities.'' @ nl) w;
          (t, w) = now e w;
          timestamp = strftime ''%Y%m%d_%H%M%S'' t;
          output_file = ''scenario_'' @ scenario_type self @ ''_'' @ timestamp @ ''.txt'';
          w = w\<lparr>files := (files w)(output_file \<mapsto> [])\<rparr>;
          buf = replicate 80 (CHR ''='') @ nl;
          buf = buf @ ''AUTOGEN SCENARIO: '' @ title scenario @ nl;
          buf = buf @ replicate 80 (CHR ''='') @ nl;
          (t, w) = now e w;
          buf = buf @ ''Generated: '' @ strftime ''%Y-%m-%d %H:%M:%S'' t @ nl;
          buf = buf @ ''Model: '' @ model self @ nl @ nl;
          (raised, buf) = write_phases (outputs self) [''research'', ''analysis'', ''blueprint'', ''review''] buf;
          w = w\<lparr>files := (files w)(output_file \<mapsto> buf)\<rparr>
      in case raised of
           Some x \<Rightarrow> (Inl x, self, w)
         | None \<Rightarrow>
             (let w = py_print (nl @ floppy_disk @ '' Results saved to: '' @ output_file) w;
                  (t, w) = now e w;
                  w = py_print (nl @ ''End Time: '' @ strftime ''%Y-%m-%d %H:%M:%S'' t) w;
                  w = py_print (replicate 80 (CHR ''='')) w
              in (Inr (), self, w)))"

definition run :: "env \<Rightarrow> state \<Rightarrow> outcome" where
  "run e st =
     (let (self, w) = st
      in case map_of (scenarios self) (scenario_type self) of
           None \<Rightarrow> (Inl (KeyError (scenario_type self)), self, w)
         | Some scenario \<Rightarrow>
             (let w = py_print (nl @ replicate 80 (CHR ''='')) w;
                  w = py_print (''AUTOGEN SCENARIO TEST: '' @ title scenario) w;
                  w = py_print (replicate 80 (CHR ''='')) w;
                  w = py_print (''Scenario: '' @ context_text scenario) w;
                  (t, w) = now e w;
                  w = py_print (''Start Time: '' @ strftime ''%Y-%m-%d %H:%M:%S'' t) w;
                  w = py_print (''Model: '' @ model self @ nl) w
              in and_then (and_then (and_then (and_then
                   (phase_research e scenario (self, w))
                   (phase_analysis e scenario))
                   (phase_blueprint e scenario))
                   (phase_review e scenario))
                   (print_summary e scenario)))"

text \<open>
  \<open>input(prompt)\<close> writes the prompt and reads a line; the line is \<open>None\<close> when standard
  input is at its end.
\<close>

definition py_input :: "string \<Rightarrow> string option \<Rightarrow> world \<Rightarrow> (exn + string) \<times> world" where
  "py_input prompt line w =
     (let w = w\<lparr>stdout := stdout w @ [prompt]\<rparr>
      in case line of None \<Rightarrow> (Inl EOFError, w) | Some l \<Rightarrow> (Inr l, w))"

definition valid_scenarios :: "string list" where
  "valid_scenarios = [''conference'', ''marketing'', ''research_paper'', ''software'']"

text \<open>The handler of \<open>main\<close>: \<open>except Exception\<close> prints the message and the traceback.\<close>

definition workflow_error :: "exn \<Rightarrow> world \<Rightarrow> (exn + unit) \<times> world" where
  "workflow_error x w =
     (if is_Exception x
      then (let w = py_print (nl @ cross_mark @ '' Error during workflow execution: '' @ exn_str x) w;
                w = w\<lparr>stderr := stderr w @ [x]\<rparr>
            in (Inr (), w))
      else (Inl x, w))"

definition main :: "env \<Rightarrow> string list \<Rightarrow> string option \<Rightarrow> world \<Rightarrow> (exn + unit) \<times> world" where
  "main e argv line w =
     (let w = py_print (nl @ replicate 80 (CHR ''='')) w;
          w = py_print ''AUTOGEN MULTI-SCENARIO TESTER'' w;
          w = py_print (replicate 80 (CHR ''='')) w;
          w = py_print (nl @ ''Available scenarios:'') w;
          w = py_print ''1. conference - Plan a 3-day AI/ML conference'' w;
          w = py_print ''2. marketing - Design a B2B SaaS marketing strategy'' w;
          w = py_print ''3. research_paper - Create an AI ethics research paper outline'' w;
          w = py_print ''4. software - Plan an e-commerce platform architecture'' w
      in case (if length argv > 1 then (Inr (argv ! 1), w)
               else (case py_input (nl @ ''Enter scenario (conference/marketing/research_paper/software): '')
                            line w of
                       (Inl x, w) \<Rightarrow> (Inl x, w)
                     | (Inr l, w) \<Rightarrow> (Inr (py_strip l), w))) of
           (Inl x, w) \<Rightarrow> (Inl x, w)
         | (Inr scenario_type_arg, w) \<Rightarrow>
             if scenario_type_arg \<notin> set valid_scenarios
             then (Inl (SystemExit 1),
                   py_print (nl @ cross_mark @ '' Invalid scenario. Please choose from: '' @
                             py_join '', '' valid_scenarios) w)
             else (case ScenarioWorkflow_init e scenario_type_arg w of
                     (Inl x, w) \<Rightarrow> workflow_error x w
                   | (Inr workflow, w) \<Rightarrow>
                       (case run e (workflow, w) of
                          (Inl x, workflow, w) \<Rightarrow> workflow_error x w
                        | (Inr u, workflow, w) \<Rightarrow>
                            (Inr (), py_print (nl @ check_mark @ '' Scenario completed successfully!'') w))))"

text \<open>
  The exit status of a process whose top level returned or raised: 0 after a normal
  return, the code of a \<open>SystemExit\<close>, and 1 after any other exception (whose traceback
  goes to standard error).
\<close>

definition exit_status :: "(exn + unit) \<times> world \<Rightarrow> nat \<times> world" where
  "exit_status r =
     (case r of
        (Inr u, w) \<Rightarrow> (0, w)
      | (Inl x, w) \<Rightarrow>
          (case x of
             SystemExit n \<Rightarrow> (n, w)
           | _ \<Rightarrow> (1, w\<lparr>stderr := stderr w @ [x]\<rparr>)))"

text \<open>The script as a process: the import guard at the top of the module, then \<open>main()\<close>.\<close>

definition scenario_tester ::
  "bool \<Rightarrow> env \<Rightarrow> string list \<Rightarrow> string option \<Rightarrow> world \<Rightarrow> nat \<times> world" where
  "scenario_tester openai_installed e argv line w =
     (if \<not> openai_installed
      then (let w = py_print ''ERROR: OpenAI client is not installed!'' w;
                w = py_print ''Please run: pip install -r ../requirements.txt'' w
            in (1, w))
      else exit_status (main e argv line w))"

section \<open>The startup analysis script\<close>

subsection \<open>Tools\<close>

text \<open>
  A tool is called in some state of the world and returns its text together with the
  state it leaves. The body of each tool is one local assignment and the \<open>return\<close> of
  an f-string: nothing in it sends a request, prints, or reads or writes a file, so the
  state it leaves is the one it was called in. An argument with a default value is
  optional.
\<close>

definition search_emerging_startups :: "string \<Rightarrow> string option \<Rightarrow> world \<Rightarrow> string \<times> world" where
  "search_emerging_startups industry location_arg w =
     (let location = (case location_arg of None \<Rightarrow> ''US'' | Some v \<Rightarrow> v);
          search_query = ''emerging startups '' @ industry @ '' '' @ location @ '' 2025 seed funding series A''
      in (nl @ ''    Research task: Find emerging startups in '' @ industry @ '' within '' @ location @
          ''.'' @ nl @ nl @ ''    Please research and provide:'' @ nl @
          ''    1. Recently funded startups (check Crunchbase, PitchBook, AngelList)'' @ nl @
          ''    2. Startup founding teams and their backgrounds'' @ nl @
          ''    3. Funding rounds and investor information'' @ nl @
          ''    4. Problem they're solving and target market'' @ nl @
          ''    5. Current traction and growth metrics'' @ nl @
          ''    6. Notable achievements and press coverage'' @ nl @ nl @
          ''    Focus on startups founded within the last 3 years with recent activity.'' @ nl @
          ''    '',
          w))"

definition analyze_competitors :: "string \<Rightarrow> string \<Rightarrow> world \<Rightarrow> string \<times> world" where
  "analyze_competitors startup_name industry w =
     (let search_query = startup_name @ '' competitors '' @ industry @ '' market share comparison analysis''
      in (nl @ ''    Research task: Analyze competitors of '' @ startup_name @ '' in the '' @ industry @
          '' space.'' @ nl @ nl @ ''    Please research and provide:'' @ nl @
          ''    1. Direct competitors with similar offerings (check G2, Capterra, ProductHunt)'' @ nl @
          ''    2. Market share and positioning of each competitor'' @ nl @
          ''    3. Competitive advantages and unique selling propositions'' @ nl @
          ''    4. Pricing strategies and business models'' @ nl @
          ''    5. Customer reviews and satisfaction ratings'' @ nl @
          ''    6. Recent product launches and strategic moves'' @ nl @
          ''    7. Strengths and weaknesses analysis'' @ nl @ nl @
          ''    Include both established players and emerging competitors.'' @ nl @
          ''    Focus on actionable competitive insights.'' @ nl @ ''    '',
          w))"

definition analyze_product_features :: "string \<Rightarrow> string \<Rightarrow> world \<Rightarrow> string \<times> world" where
  "analyze_product_features product_name category w =
     (let search_query = product_name @ '' features review analysis user feedback '' @ category
      in (nl @ ''    Research task: Analyze features of '' @ product_name @ '' in the '' @ category @
          '' space.'' @ nl @ nl @ ''    Please research and provide:'' @ nl @
          ''    1. Core features and functionality overview'' @ nl @
          ''    2. User reviews and feature-specific feedback (check ProductHunt, G2, Reddit)'' @ nl @
          ''    3. Feature comparison with competing products'' @ nl @
          ''    4. Most requested features from users'' @ nl @
          ''    5. Technical specifications and integrations'' @ nl @
          ''    6. Usability and user experience insights'' @ nl @
          ''    7. Feature gaps and improvement opportunities'' @ nl @ nl @
          ''    Include both positive feedback and pain points.'' @ nl @
          ''    Focus on actionable insights for product development.'' @ nl @ ''    '',
          w))"

definition research_market_trends :: "string \<Rightarrow> string option \<Rightarrow> world \<Rightarrow> string \<times> world" where
  "research_market_trends industry timeframe_arg w =
     (let timeframe = (case timeframe_arg of None \<Rightarrow> ''2025'' | Some v \<Rightarrow> v);
          search_query = industry @ '' market trends '' @ timeframe @ '' growth opportunities forecast''
      in (nl @ ''    Research task: Analyze market trends in the '' @ industry @ '' sector for '' @
          timeframe @ ''.'' @ nl @ nl @ ''    Please research and provide:'' @ nl @
          ''    1. Current market size and growth projections'' @ nl @
          ''    2. Key trends driving the industry (check Gartner, McKinsey, industry reports)'' @ nl @
          ''    3. Emerging technologies and innovations'' @ nl @
          ''    4. Consumer behavior shifts and preferences'' @ nl @
          ''    5. Regulatory changes and their impact'' @ nl @
          ''    6. Investment trends and VC interest'' @ nl @
          ''    7. Market opportunities and white spaces'' @ nl @ nl @
          ''    Provide data-driven insights with credible sources.'' @ nl @
          ''    Focus on actionable trends for startup opportunities.'' @ nl @ ''    '',
          w))"

subsection \<open>Agents, tasks and the crew\<close>

text \<open>
  \<open>Agent\<close>, \<open>Task\<close> and \<open>Crew\<close> belong to the orchestration library; the script only
  fills in their fields.
\<close>

datatype tool =
    Tool_search_emerging_startups
  | Tool_analyze_competitors
  | Tool_analyze_product_features
  | Tool_research_market_trends

record Agent =
  role :: string
  goal :: string
  backstory :: string
  tools :: "tool list"
  verbose :: bool
  allow_delegation :: bool

record Task =
  description :: string
  agent :: Agent
  expected_output :: string

record Crew =
  crew_agents :: "Agent list"
  crew_tasks :: "Task list"
  crew_verbose :: bool
  process :: string

definition create_startup_scout_agent :: "string \<Rightarrow> string \<Rightarrow> Agent" where
  "create_startup_scout_agent industry location =
     \<lparr>role = ''Startup Discovery Specialist'',
      goal =
          ''Discover and analyze emerging startups in the '' @ industry @ '' sector within '' @ location @
          '', identifying promising companies with innovative solutions. Use real data from '' @
          ''startup databases and funding news to provide accurate insights.'',
      backstory =
          ''You are a seasoned startup scout with extensive experience in identifying promising '' @
          ''early-stage companies. With a background in venture capital and deep connections in '' @
          ''the startup ecosystem, you excel at spotting trends before they become mainstream. '' @
          ''You have evaluated thousands of startups and have a keen eye for innovation, strong '' @
          ''founding teams, and scalable business models. You always verify information from '' @
          ''multiple sources including Crunchbase, AngelList, and industry news.'',
      tools = [Tool_search_emerging_startups],
      verbose = True,
      allow_delegation = False\<rparr>"

definition create_market_analyst_agent :: "string \<Rightarrow> Agent" where
  "create_market_analyst_agent industry =
     \<lparr>role = ''Competitive Analysis Expert'',
      goal =
          ''Conduct comprehensive competitive analysis in the '' @ industry @
          '' market, identifying key players, market dynamics, and strategic opportunities. Use '' @
          ''real market data and competitor information to provide actionable insights.'',
      backstory =
          ''You are a strategic market analyst with over 15 years of experience in competitive '' @
          ''intelligence and market research. Having worked with Fortune 500 companies and '' @
          ''top-tier consulting firms, you specialize in dissecting market landscapes and '' @
          ''identifying competitive advantages. You combine data analytics with strategic '' @
          ''thinking to uncover hidden opportunities. You meticulously analyze competitor '' @
          ''strategies, market positioning, and customer sentiment using tools like G2, '' @
          ''Capterra, and industry reports.'',
      tools = [Tool_analyze_competitors, Tool_research_market_trends],
      verbose = True,
      allow_delegation = False\<rparr>"

definition create_product_strategist_agent :: "string \<Rightarrow> Agent" where
  "create_product_strategist_agent industry =
     \<lparr>role = ''Product Pitch Specialist'',
      goal =
          ''Create compelling product pitches and value propositions for startups in the '' @ industry @
          '' sector, crafting narratives that resonate with investors and customers. Use market '' @
          ''insights and competitive analysis to develop unique positioning.'',
      backstory =
          ''You are a master storyteller and product strategist who has helped launch over 100 '' @
          ''successful products. With experience at top tech companies and as a startup founder '' @
          ''yourself, you understand what makes products compelling. You excel at translating '' @
          ''complex technical features into clear value propositions that resonate with target '' @
          ''audiences. You craft pitches that have secured millions in funding and driven '' @
          ''significant customer adoption. You always ground your strategies in market research '' @
          ''and user insights.'',
      tools = [Tool_analyze_product_features],
      verbose = True,
      allow_delegation = False\<rparr>"

definition create_feature_analyst_agent :: "string \<Rightarrow> Agent" where
  "create_feature_analyst_agent category =
     \<lparr>role = ''Feature Analysis Expert'',
      goal =
          ''Analyze product features and user feedback for '' @ category @
          '' products, identifying strengths, weaknesses, and opportunities for innovation. Use '' @
          ''real user reviews and feature comparisons to provide actionable insights.'',
      backstory =
          ''You are a product analyst with deep expertise in feature optimization and user '' @
          ''experience design. Having analyzed hundreds of products across various industries, '' @
          ''you have a unique ability to identify what makes features successful or '' @
          ''problematic. You combine quantitative data analysis with qualitative user research '' @
          ''to provide comprehensive feature assessments. Your insights have helped companies '' @
          ''improve user satisfaction scores by 40% on average. You always base recommendations '' @
          ''on real user feedback and data.'',
      tools = [Tool_analyze_product_features, Tool_research_market_trends],
      verbose = True,
      allow_delegation = False\<rparr>"

definition create_startup_discovery_task :: "Agent \<Rightarrow> string \<Rightarrow> string \<Rightarrow> string \<Rightarrow> Task" where
  "create_startup_discovery_task startup_scout industry location stage =
     \<lparr>description =
          ''Research and compile a list of REAL emerging startups in the '' @ industry @
          '' industry within '' @ location @ '' at '' @ stage @
          '' stage. Use actual current data from Crunchbase, AngelList, PitchBook, and recent '' @
          ''funding news. Find at least 3-5 promising startups, including details about their '' @
          ''founding team, problem they solve, funding history, traction metrics, and '' @
          ''competitive advantages. Provide recommendations on which startups show the most '' @
          ''promise based on market opportunity and execution capability.'',
      agent = startup_scout,
      expected_output =
          ''A detailed report with 3-5 REAL emerging startups in '' @ industry @
          '' including founding teams, funding details, traction metrics, and strategic '' @
          ''recommendations based on actual data from startup databases and news sources''\<rparr>"

definition create_competitive_analysis_task :: "Agent \<Rightarrow> string \<Rightarrow> string \<Rightarrow> Task" where
  "create_competitive_analysis_task market_analyst startup_name industry =
     \<lparr>description =
          ''Based on the discovered startup '' @ startup_name @
          '', conduct a comprehensive competitive analysis in the '' @ industry @
          '' market. Research actual competitors using G2, Capterra, ProductHunt, and industry '' @
          ''reports. For each competitor, provide their market positioning, unique value '' @
          ''propositions, pricing strategies, customer satisfaction scores, and recent '' @
          ''strategic moves. Include both direct competitors and potential threats from '' @
          ''adjacent markets. Analyze market trends and identify opportunities for '' @
          ''differentiation.'',
      agent = market_analyst,
      expected_output =
          ''A comprehensive competitive analysis for '' @ startup_name @ '' in '' @ industry @
          '' with detailed competitor profiles, market positioning matrix, SWOT analysis, and '' @
          ''strategic recommendations based on actual market data''\<rparr>"

definition create_product_pitch_task :: "Agent \<Rightarrow> string \<Rightarrow> string \<Rightarrow> string \<Rightarrow> Task" where
  "create_product_pitch_task product_strategist startup_name industry target_audience =
     \<lparr>description =
          ''Create a compelling product pitch for '' @ startup_name @ '' in the '' @ industry @
          '' sector targeting '' @ target_audience @
          ''. Based on the competitive analysis, craft a unique value proposition that '' @
          ''differentiates from competitors. Develop key messaging that addresses customer pain '' @
          ''points and highlights competitive advantages. Create a pitch deck outline with '' @
          ''compelling narrative, market opportunity sizing, go-to-market strategy, and '' @
          ''investment highlights. Use real market data and customer insights to support your '' @
          ''recommendations.'',
      agent = product_strategist,
      expected_output =
          ''A comprehensive product pitch for '' @ startup_name @
          '' including unique value proposition, key messaging framework, pitch deck outline '' @
          ''with 10-12 slides, go-to-market strategy, and investment highlights supported by '' @
          ''real market data''\<rparr>"

definition create_feature_analysis_task :: "Agent \<Rightarrow> string \<Rightarrow> string \<Rightarrow> Task" where
  "create_feature_analysis_task feature_analyst product_name category =
     \<lparr>description =
          ''Based on the product pitch for '' @ product_name @
          '', conduct a detailed feature analysis in the '' @ category @
          '' space. Research actual user feedback from ProductHunt, G2, Reddit, and app store '' @
          ''reviews. Analyze core features, user satisfaction levels, feature requests, and '' @
          ''pain points. Compare features with competing products and identify gaps in the '' @
          ''market. Provide recommendations for feature prioritization, potential innovations, '' @
          ''and product roadmap based on real user needs and market trends.'',
      agent = feature_analyst,
      expected_output =
          ''A comprehensive feature analysis for '' @ product_name @
          '' including feature comparison matrix, user satisfaction scores, top feature '' @
          ''requests, competitive feature gaps, and prioritized roadmap recommendations based '' @
          ''on real user feedback''\<rparr>"
subsection \<open>The main function\<close>

text \<open>
  What the script takes from outside: the shared configuration module, the result of
  its \<open>validate_config()\<close>, what \<open>crew.kickoff\<close> does (it returns the crew's result or
  raises), the clock and the directory of the script file.
\<close>

record crew_env =
  shared_Config :: config
  validate_config :: bool
  kickoff :: "Crew \<Rightarrow> (string \<times> string) list \<Rightarrow> exn + string"
  crew_clock :: "nat \<Rightarrow> datetime"
  script_dir :: string

text \<open>The handler of the script's \<open>main\<close>: \<open>except Exception\<close>.\<close>

definition crew_error :: "exn \<Rightarrow> world \<Rightarrow> (exn + unit) \<times> world" where
  "crew_error x w =
     (if is_Exception x
      then (let w = py_print (nl @ cross_mark @ '' Error during crew execution: '' @ exn_str x) w;
                w = py_print (nl @ [CHR 0xF0, CHR 0x9F, CHR 0x94, CHR 0x8D] @ '' Troubleshooting:'') w;
                w = py_print (''   1. Verify OPENAI_API_KEY is set: export OPENAI_API_KEY='sk-...''
                              @ [CHR 0x27]) w;
                w = py_print ''   2. Check API key is valid and has sufficient credits'' w;
                w = py_print ''   3. Verify internet connection for web research'' w;
                w = py_print ''   4. Check OpenAI API status at https://status.openai.com'' w;
                w = py_print '''' w;
                w = w\<lparr>stderr := stderr w @ [x]\<rparr>
            in (Inr (), w))
      else (Inl x, w))"

text \<open>The report file written after a successful kickoff.\<close>

definition crew_report ::
  "string \<Rightarrow> string \<Rightarrow> string \<Rightarrow> string \<Rightarrow> string \<Rightarrow> string \<Rightarrow> datetime \<Rightarrow> string \<Rightarrow> string" where
  "crew_report industry location startup_stage target_audience analysis_focus category t result =
     (let buf = replicate 80 (CHR ''='') @ nl;
          buf = buf @ ''CrewAI Multi-Agent Startup Analysis System - Real API Execution Report'' @ nl;
          buf = buf @ ''Analyzing '' @ startup_stage @ '' Startups in '' @ industry @ nl;
          buf = buf @ replicate 80 (CHR ''='') @ nl @ nl;
          buf = buf @ ''Analysis Parameters:'' @ nl;
          buf = buf @ ''  Industry: '' @ industry @ nl;
          buf = buf @ ''  Location: '' @ location @ nl;
          buf = buf @ ''  Startup Stage: '' @ startup_stage @ nl;
          buf = buf @ ''  Target Audience: '' @ target_audience @ nl;
          buf = buf @ ''  Analysis Focus: '' @ analysis_focus @ nl;
          buf = buf @ ''  Product Category: '' @ category @ nl @ nl;
          buf = buf @ ''Execution Time: '' @ datetime_str t @ nl;
          buf = buf @ ''API Version: REAL API CALLS (OpenAI GPT-4)'' @ nl;
          buf = buf @ ''Data Source: Web research via OpenAI'' @ nl @ nl;
          buf = buf @ ''IMPORTANT NOTES:'' @ nl;
          buf = buf @ ''- All startup data, funding information, and market analysis is based on real data'' @ nl;
          buf = buf @ ''- Information is current as of the date this was run'' @ nl;
          buf = buf @ ''- Startup valuations and funding status may change rapidly'' @ nl;
          buf = buf @ ''- Competitive landscape and market trends should be verified before investment '' @
                      ''decisions'' @ nl @ nl;
          buf = buf @ ''FINAL STARTUP ANALYSIS REPORT:'' @ nl;
          buf = buf @ replicate 80 (CHR ''-'') @ nl;
          buf = buf @ result;
          buf = buf @ nl @ replicate 80 (CHR ''-'') @ nl
      in buf)"

definition crewai_main ::
  "crew_env \<Rightarrow> string \<Rightarrow> string \<Rightarrow> string \<Rightarrow> string \<Rightarrow> string \<Rightarrow> string \<Rightarrow> world
     \<Rightarrow> (exn + unit) \<times> world" where
  "crewai_main ce industry location startup_stage target_audience analysis_focus category w =
     (let w = py_print (replicate 80 (CHR ''='')) w;
          w = py_print ''CrewAI Multi-Agent Startup Analysis System (REAL API VERSION)'' w;
          w = py_print (''Analyzing '' @ startup_stage @ '' Startups in '' @ industry) w;
          w = py_print (replicate 80 (CHR ''='')) w;
          w = py_print '''' w;
          w = py_print ([CHR 0xF0, CHR 0x9F, CHR 0x9A, CHR 0x80] @ '' Industry Focus: '' @ industry) w;
          w = py_print ([CHR 0xF0, CHR 0x9F, CHR 0x93, CHR 0x8D] @ '' Location: '' @ location) w;
          w = py_print ([CHR 0xF0, CHR 0x9F, CHR 0x93, CHR 0x8A] @ '' Startup Stage: '' @ startup_stage) w;
          w = py_print ([CHR 0xF0, CHR 0x9F, CHR 0x8E, CHR 0xAF] @ '' Target Audience: '' @ target_audience) w;
          w = py_print ([CHR 0xF0, CHR 0x9F, CHR 0x94, CHR 0x8D] @ '' Analysis Type: '' @ analysis_focus) w;
          w = py_print ([CHR 0xF0, CHR 0x9F, CHR 0x93, CHR 0xA6] @ '' Product Category: '' @ category) w;
          w = py_print '''' w;
          w = py_print ([CHR 0xF0, CHR 0x9F, CHR 0x94, CHR 0x8D] @ '' Validating configuration...'') w
      in if \<not> validate_config ce
         then (Inl (SystemExit 1),
               py_print (cross_mark @
                         '' Configuration validation failed. Please set up your .env file.'') w)
         else
     (let w = w\<lparr>environ := (environ w)(''OPENAI_API_KEY'' \<mapsto> API_KEY (shared_Config ce))\<rparr>;
          w = w\<lparr>environ := (environ w)(''OPENAI_API_BASE'' \<mapsto> API_BASE (shared_Config ce))\<rparr>;
          w = (if USE_GROQ (shared_Config ce)
               then w\<lparr>environ := (environ w)(''OPENAI_MODEL_NAME'' \<mapsto> OPENAI_MODEL (shared_Config ce))\<rparr>
               else w);
          w = py_print (check_mark @ '' Configuration validated successfully!'') w;
          w = py_print '''' w;
          w = foldl (\<lambda>w s. py_print s w) w (summary_lines (shared_Config ce));
          w = py_print '''' w;
          w = py_print ([CHR 0xE2, CHR 0x9A, CHR 0xA0, CHR 0xEF, CHR 0xB8, CHR 0x8F] @
                        ''  IMPORTANT: This version uses REAL OpenAI API calls and web search'') w;
          w = py_print ''    Agents will research actual startup data and market information'' w;
          w = py_print '''' w;
          w = py_print ''Tip: Check your API usage at https://platform.openai.com/account/usage'' w;
          w = py_print '''' w;
          w = py_print ''[1/4] Creating Startup Scout Agent (discovers emerging startups)...'' w;
          startup_scout = create_startup_scout_agent industry location;
          w = py_print ''[2/4] Creating Market Analyst Agent (analyzes competition)...'' w;
          market_analyst = create_market_analyst_agent industry;
          w = py_print ''[3/4] Creating Product Strategist Agent (crafts pitches)...'' w;
          product_strategist = create_product_strategist_agent industry;
          w = py_print ''[4/4] Creating Feature Analyst Agent (evaluates products)...'' w;
          feature_analyst = create_feature_analyst_agent category;
          w = py_print (nl @ check_mark @ '' All agents created successfully!'') w;
          w = py_print '''' w;
          w = py_print ''Creating tasks for the crew...'' w;
          startup_discovery_task =
            create_startup_discovery_task startup_scout industry location startup_stage;
          competitive_analysis_task =
            create_competitive_analysis_task market_analyst ''[To be discovered]'' industry;
          product_pitch_task =
            create_product_pitch_task product_strategist ''[To be discovered]'' industry target_audience;
          feature_analysis_task =
            create_feature_analysis_task feature_analyst ''[To be discovered]'' category;
          w = py_print ''Tasks created successfully!'' w;
          w = py_print '''' w;
          w = py_print ''Forming the Startup Analysis Crew...'' w;
          w = py_print (''Task Sequence: StartupScout '' @ [CHR 0xE2, CHR 0x86, CHR 0x92] @ '' MarketAnalyst '' @
                        [CHR 0xE2, CHR 0x86, CHR 0x92] @ '' ProductStrategist '' @ [CHR 0xE2, CHR 0x86, CHR 0x92] @
                        '' FeatureAnalyst'') w;
          w = py_print '''' w;
          crew = \<lparr>crew_agents = [startup_scout, market_analyst, product_strategist, feature_analyst],
                  crew_tasks = [startup_discovery_task, competitive_analysis_task,
                                product_pitch_task, feature_analysis_task],
                  crew_verbose = True,
                  process = ''sequential''\<rparr>;
          w = py_print (replicate 80 (CHR ''='')) w;
          w = py_print ''Starting Crew Execution with REAL API Calls...'' w;
          w = py_print (''Analyzing '' @ startup_stage @ '' startups in '' @ industry @ '' sector'') w;
          w = py_print (replicate 80 (CHR ''='')) w;
          w = py_print '''' w;
          inputs = [(''industry'', industry), (''location'', location),
                    (''startup_stage'', startup_stage), (''target_audience'', target_audience),
                    (''analysis_focus'', analysis_focus), (''category'', category)];
          w = w\<lparr>kickoffs := kickoffs w @ [inputs]\<rparr>
      in case kickoff ce crew inputs of
           Inl x \<Rightarrow> crew_error x w
         | Inr result \<Rightarrow>
     (let w = py_print '''' w;
          w = py_print (replicate 80 (CHR ''='')) w;
          w = py_print (check_mark @ '' Crew Execution Completed Successfully!'') w;
          w = py_print (replicate 80 (CHR ''='')) w;
          w = py_print '''' w;
          w = py_print (''FINAL STARTUP ANALYSIS REPORT FOR '' @ py_upper industry @
                        '' (Based on Real API Data):'') w;
          w = py_print (replicate 80 (CHR ''-'')) w;
          w = py_print result w;
          w = py_print (replicate 80 (CHR ''-'')) w;
          output_filename = ''crewai_startup_analysis_'' @
                            py_replace_char (CHR ''/'') ''_'' (py_lower industry) @ ''.txt'';
          output_path = script_dir ce @ ''/'' @ output_filename;
          t = crew_clock ce (ticks w);
          w = w\<lparr>ticks := Suc (ticks w)\<rparr>;
          w = w\<lparr>files := (files w)(output_path \<mapsto>
                 crew_report industry location startup_stage target_audience analysis_focus
                   category t result)\<rparr>;
          w = py_print (nl @ check_mark @ '' Output saved to '' @ output_filename) w;
          w = py_print ([CHR 0xE2, CHR 0x84, CHR 0xB9, CHR 0xEF, CHR 0xB8, CHR 0x8F] @
                        ''  Note: All data in this report is based on REAL API calls to OpenAI'') w;
          w = py_print ''    and research of current startup databases and market sources.'' w
      in (Inr (), w))))"

text \<open>
  The script as a process: the command line overrides the defaults of the six
  parameters in order, then \<open>main\<close> runs. An argument list starts with the script's name.
\<close>

definition arg_or :: "string list \<Rightarrow> nat \<Rightarrow> string \<Rightarrow> string" where
  "arg_or argv k d = (if length argv > k then argv ! k else d)"

definition crewai_demo :: "crew_env \<Rightarrow> string list \<Rightarrow> world \<Rightarrow> nat \<times> world" where
  "crewai_demo ce argv w =
     exit_status
       (crewai_main ce
          (arg_or argv 1 ''AI/ML'')
          (arg_or argv 2 ''San Francisco Bay Area'')
          (arg_or argv 3 ''Seed to Series A'')
          (arg_or argv 4 ''B2B SaaS'')
          (arg_or argv 5 ''comprehensive'')
          (arg_or argv 6 ''productivity tools'') w)"

section \<open>Notions used to state the properties\<close>

text \<open>
  The four stages in the order in which \<open>run\<close> calls them, and the requests a run adds
  to the backend's log. \<open>replies e h qs\<close> are the backend's answers to the requests
  \<open>qs\<close> made one after the other when \<open>h\<close> was issued before.
\<close>

definition stage_names :: "string list" where
  "stage_names = [''research'', ''analysis'', ''blueprint'', ''review'']"

fun replies :: "env \<Rightarrow> request list \<Rightarrow> request list \<Rightarrow> reply list" where
  "replies e h [] = []"
| "replies e h (q # qs) = backend e h q # replies e (h @ [q]) qs"

fun content_of :: "reply \<Rightarrow> string option" where
  "content_of (Reply (c # cs)) = c"
| "content_of r = None"

fun failure :: "reply \<Rightarrow> exn" where
  "failure (Raises m) = APIError m"
| "failure r = IndexError"

definition system_of :: "request \<Rightarrow> string option" where
  "system_of q = map_of (req_messages q) ''system''"

definition stage_prompts :: "string \<Rightarrow> string option list" where
  "stage_prompts s =
     [map_of research_prompts s, map_of analysis_prompts s,
      map_of blueprint_prompts s, map_of review_prompts s]"

fun succeeded :: "reply \<Rightarrow> bool" where
  "succeeded (Reply (c # cs)) = True"
| "succeeded r = False"

definition chat_request :: "env \<Rightarrow> ScenarioWorkflow \<Rightarrow> string \<Rightarrow> string \<Rightarrow> request" where
  "chat_request e self system_prompt user_message =
     \<lparr>req_model = model self,
      req_temperature = AGENT_TEMPERATURE (Config e),
      req_max_tokens = AGENT_MAX_TOKENS (Config e),
      req_messages = [(''system'', system_prompt), (''user'', user_message)]\<rparr>"

definition unchanged :: "world \<Rightarrow> world \<Rightarrow> bool" where
  "unchanged w w' \<longleftrightarrow>
     stderr w' = stderr w \<and> files w' = files w \<and> ticks w' = ticks w \<and>
     environ w' = environ w \<and> kickoffs w' = kickoffs w"

definition same_workflow :: "ScenarioWorkflow \<Rightarrow> ScenarioWorkflow \<Rightarrow> bool" where
  "same_workflow self self' \<longleftrightarrow>
     client self' = client self \<and> model self' = model self \<and>
     scenario_type self' = scenario_type self \<and> scenarios self' = scenarios self"

fun stage_effect ::
  "reply \<Rightarrow> string \<Rightarrow> ScenarioWorkflow \<Rightarrow> exn + unit \<Rightarrow> ScenarioWorkflow \<Rightarrow> bool" where
  "stage_effect (Raises m) k self res self' \<longleftrightarrow>
     res = Inl (APIError m) \<and> outputs self' = outputs self"
| "stage_effect (Reply []) k self res self' \<longleftrightarrow>
     res = Inl IndexError \<and> outputs self' = outputs self"
| "stage_effect (Reply (c # cs)) k self res self' \<longleftrightarrow>
     res = Inr () \<and> outputs self' = dict_set (outputs self) k c"

definition progressed :: "env \<Rightarrow> state \<Rightarrow> nat \<Rightarrow> state \<Rightarrow> bool" where
  "progressed e st k st' \<longleftrightarrow>
     (case (st, st') of ((self, w), (self', w')) \<Rightarrow>
        (\<exists>qs. calls w' = calls w @ qs \<and> length qs = k \<and>
              map system_of qs = take k (stage_prompts (scenario_type self)) \<and>
              list_all succeeded (replies e (calls w) qs) \<and>
              outputs self' = zip (take k stage_names) (map content_of (replies e (calls w) qs))) \<and>
        unchanged w w' \<and> same_workflow self self')"

definition aborted :: "env \<Rightarrow> state \<Rightarrow> nat \<Rightarrow> exn + unit \<Rightarrow> state \<Rightarrow> bool" where
  "aborted e st k res st' \<longleftrightarrow>
     (case (st, st') of ((self, w), (self', w')) \<Rightarrow>
        (\<exists>qs. calls w' = calls w @ qs \<and> length qs = Suc k \<and>
              map system_of qs = take (Suc k) (stage_prompts (scenario_type self)) \<and>
              list_all succeeded (take k (replies e (calls w) qs)) \<and>
              \<not> succeeded (replies e (calls w) qs ! k) \<and>
              res = Inl (failure (replies e (calls w) qs ! k)) \<and>
              outputs self' = zip (take k stage_names) (map content_of (replies e (calls w) qs))) \<and>
        unchanged w w' \<and> same_workflow self self')"

text \<open>
  The report file of \<open>print_summary\<close>: its name for a scenario and a time, the header
  written before the loop and the section the loop writes for one phase.
\<close>

definition report_name :: "string \<Rightarrow> datetime \<Rightarrow> string" where
  "report_name s t = ''scenario_'' @ s @ ''_'' @ strftime ''%Y%m%d_%H%M%S'' t @ ''.txt''"

definition report_header :: "scenario \<Rightarrow> string \<Rightarrow> datetime \<Rightarrow> string" where
  "report_header sc m t =
     replicate 80 (CHR ''='') @ nl @
     ''AUTOGEN SCENARIO: '' @ title sc @ nl @
     replicate 80 (CHR ''='') @ nl @
     ''Generated: '' @ strftime ''%Y-%m-%d %H:%M:%S'' t @ nl @
     ''Model: '' @ m @ nl @ nl"

definition report_section :: "string \<Rightarrow> string \<Rightarrow> string" where
  "report_section phase text =
     nl @ replicate 80 (CHR ''-'') @ nl @
     py_upper phase @ '' PHASE'' @ nl @
     replicate 80 (CHR ''-'') @ nl @
     text @ nl"

text \<open>
  The two ways a run of a fresh workflow ends. Aborted at stage \<open>k\<close> (counted from 0):
  the run made \<open>k + 1\<close> requests, the first \<open>k\<close> were answered, the last one was not, the
  answered stages are in \<open>outputs\<close> and no file was touched. Completed: four requests were
  answered, all four stages are in \<open>outputs\<close>, and the report was written as far as the
  loop of \<open>print_summary\<close> got.
\<close>

definition run_aborted :: "env \<Rightarrow> state \<Rightarrow> nat \<Rightarrow> outcome \<Rightarrow> bool" where
  "run_aborted e st k out \<longleftrightarrow>
     (case (st, out) of ((self, w), (res, self', w')) \<Rightarrow>
        (\<exists>qs. calls w' = calls w @ qs \<and> length qs = Suc k \<and>
              map system_of qs = take (Suc k) (stage_prompts (scenario_type self)) \<and>
              list_all succeeded (take k (replies e (calls w) qs)) \<and>
              \<not> succeeded (replies e (calls w) qs ! k) \<and>
              res = Inl (failure (replies e (calls w) qs ! k)) \<and>
              outputs self' = zip (take k stage_names) (map content_of (replies e (calls w) qs)) \<and>
              files w' = files w))"

definition run_completed :: "env \<Rightarrow> scenario \<Rightarrow> state \<Rightarrow> outcome \<Rightarrow> bool" where
  "run_completed e sc st out \<longleftrightarrow>
     (case (st, out) of ((self, w), (res, self', w')) \<Rightarrow>
        (\<exists>qs. calls w' = calls w @ qs \<and> length qs = 4 \<and>
              map system_of qs = stage_prompts (scenario_type self) \<and>
              list_all succeeded (replies e (calls w) qs) \<and>
              outputs self' = zip stage_names (map content_of (replies e (calls w) qs)) \<and>
              files w' =
                (files w)(report_name (scenario_type self) (clock e (Suc (ticks w))) \<mapsto>
                  snd (write_phases (outputs self') stage_names
                         (report_header sc (model self) (clock e (Suc (Suc (ticks w))))))) \<and>
              res = (case fst (write_phases (outputs self') stage_names
                                 (report_header sc (model self) (clock e (Suc (Suc (ticks w)))))) of
                       None \<Rightarrow> Inr () | Some x \<Rightarrow> Inl x)))"

definition new_calls :: "world \<Rightarrow> world \<Rightarrow> request list" where
  "new_calls w w' = drop (length (calls w)) (calls w')"

text \<open>
  The scenario identifier \<open>main\<close> works with: the first command-line argument, or else
  the stripped line read from standard input (none at the end of input).
\<close>

definition chosen_scenario :: "string list \<Rightarrow> string option \<Rightarrow> string option" where
  "chosen_scenario argv line =
     (if length argv > 1 then Some (argv ! 1) else map_option py_strip line)"

text \<open>The four phase methods in the order in which \<open>run\<close> calls them.\<close>

definition stage_functions :: "(env \<Rightarrow> scenario \<Rightarrow> state \<Rightarrow> outcome) list" where
  "stage_functions = [phase_research, phase_analysis, phase_blueprint, phase_review]"

text \<open>
  A backend is deterministic when its answer depends on the request only, not on what
  was asked before. Two outcomes agree when they return or raise the same and leave
  the same workflow object.
\<close>

definition deterministic :: "env \<Rightarrow> bool" where
  "deterministic e \<longleftrightarrow> (\<forall>h h' q. backend e h q = backend e h' q)"

definition same_result :: "outcome \<Rightarrow> outcome \<Rightarrow> bool" where
  "same_result a b \<longleftrightarrow> fst a = fst b \<and> fst (snd a) = fst (snd b)"

subsection \<open>Sample inputs\<close>

text \<open>
  A configuration that validates, a clock that advances by one second per read, an
  empty world, a backend that always answers and one that fails on its third request.
\<close>

definition sample_config :: config where
  "sample_config =
     \<lparr>validate_setup = True, API_KEY = ''key'', API_BASE = ''https://llm.example/v1'',
      OPENAI_MODEL = ''gpt-4o-mini'', AGENT_TEMPERATURE = 1, AGENT_MAX_TOKENS = 500,
      USE_GROQ = False, summary_lines = []\<rparr>"

definition sample_clock :: "nat \<Rightarrow> datetime" where
  "sample_clock n =
     \<lparr>year = 2025, month = 1, day = 2, hour = 3, minute = 4, second = 5 + n, microsecond = 0\<rparr>"

definition empty_world :: world where
  "empty_world =
     \<lparr>stdout = [], stderr = [], calls = [], files = Map.empty, ticks = 0,
      environ = Map.empty, kickoffs = []\<rparr>"

definition answering_env :: env where
  "answering_env =
     \<lparr>backend = (\<lambda>h q. Reply [Some ''ok'']), clock = sample_clock, Config = sample_config\<rparr>"

definition failing_env :: env where
  "failing_env =
     \<lparr>backend = (\<lambda>h q. if length h = 2 then Raises ''timeout'' else Reply [Some ''ok'']),
      clock = sample_clock, Config = sample_config\<rparr>"

definition sample_workflow :: ScenarioWorkflow where
  "sample_workflow =
     \<lparr>client = (''key'', ''https://llm.example/v1''), outputs = [], model = ''gpt-4o-mini'',
      scenario_type = ''conference'', scenarios = scenarios_table\<rparr>"

definition unconfigured_env :: env where
  "unconfigured_env =
     \<lparr>backend = (\<lambda>h q. Reply [Some ''ok'']), clock = sample_clock,
      Config = sample_config\<lparr>validate_setup := False\<rparr>\<rparr>"

text \<open>
  For the startup analysis script: an environment whose configuration does not
  validate, one that validates and whose kickoff raises, and one whose kickoff returns.
\<close>

definition unconfigured_crew_env :: crew_env where
  "unconfigured_crew_env =
     \<lparr>shared_Config = sample_config, validate_config = False,
      kickoff = (\<lambda>c i. Inr ''report''), crew_clock = sample_clock, script_dir = ''/app''\<rparr>"

definition raising_crew_env :: crew_env where
  "raising_crew_env =
     \<lparr>shared_Config = sample_config, validate_config = True,
      kickoff = (\<lambda>c i. Inl (APIError ''rate limit'')), crew_clock = sample_clock,
      script_dir = ''/app''\<rparr>"

definition answering_crew_env :: crew_env where
  "answering_crew_env =
     \<lparr>shared_Config = sample_config, validate_config = True,
      kickoff = (\<lambda>c i. Inr ''report''), crew_clock = sample_clock, script_dir = ''/app''\<rparr>"

definition sample_scenario :: scenario where
  "sample_scenario =
     \<lparr>title = ''3-Day AI/ML Conference Planning'',
      agents = \<lparr>agent_research = ''Conference Research Specialist'',
                agent_analysis = ''Attendee & Speaker Analyst'',
                agent_blueprint = ''Agenda Designer'',
                agent_review = ''Conference Director''\<rparr>,
      context_text = ''planning a 3-day AI/ML conference for 500 attendees''\<rparr>"

section \<open>The stages one by one\<close>

declare strftime.simps [simp del] directive.simps [simp del] dec.simps [simp del]
declare write_phases.simps [simp del]

lemma phase_research_spec:
  assumes "map_of research_prompts (scenario_type self) = Some p"
      and "map_of research_user_messages (scenario_type self) = Some u"
      and "phase_research e sc (self, w) = (res, self', w')"
  shows "calls w' = calls w @ [chat_request e self p u] \<and> unchanged w w' \<and> same_workflow self self' \<and>
         stage_effect (backend e (calls w) (chat_request e self p u)) ''research'' self res self'"
proof (cases "backend e (calls w) (chat_request e self p u)")
  case (Raises m)
  with assms show ?thesis
    by (auto simp: phase_research_def Let_def py_print_def chat_completions_create_def
                   chat_request_def unchanged_def same_workflow_def)
next
  case (Reply choices)
  with assms show ?thesis
    by (cases choices)
       (auto simp: phase_research_def Let_def py_print_def chat_completions_create_def
                   first_content_def chat_request_def unchanged_def same_workflow_def)
qed

lemma phase_analysis_spec:
  assumes "map_of analysis_prompts (scenario_type self) = Some p"
      and "map_of (outputs self) ''research'' = Some v"
      and "phase_analysis e sc (self, w) = (res, self', w')"
      and "u = ''Research findings:'' @ nl @ py_str v @ nl @ nl @ ''Provide your analysis.''"
  shows "calls w' = calls w @ [chat_request e self p u] \<and> unchanged w w' \<and> same_workflow self self' \<and>
         stage_effect (backend e (calls w) (chat_request e self p u)) ''analysis'' self res self'"
proof (cases "backend e (calls w) (chat_request e self p u)")
  case (Raises m)
  with assms show ?thesis
    by (auto simp: phase_analysis_def Let_def py_print_def chat_completions_create_def
                   chat_request_def unchanged_def same_workflow_def)
next
  case (Reply choices)
  with assms show ?thesis
    by (cases choices)
       (auto simp: phase_analysis_def Let_def py_print_def chat_completions_create_def
                   first_content_def chat_request_def unchanged_def same_workflow_def)
qed

lemma valid_cases:
  "s \<in> set valid_scenarios \<Longrightarrow>
   s = ''conference'' \<or> s = ''marketing'' \<or> s = ''research_paper'' \<or> s = ''software''"
  by (simp add: valid_scenarios_def)

lemma valid_research_prompt: "s \<in> set valid_scenarios \<Longrightarrow> \<exists>p. map_of research_prompts s = Some p"
  by (auto dest!: valid_cases simp: research_prompts_def)

lemma valid_research_user: "s \<in> set valid_scenarios \<Longrightarrow> \<exists>p. map_of research_user_messages s = Some p"
  by (auto dest!: valid_cases simp: research_user_messages_def)

lemma valid_analysis_prompt: "s \<in> set valid_scenarios \<Longrightarrow> \<exists>p. map_of analysis_prompts s = Some p"
  by (auto dest!: valid_cases simp: analysis_prompts_def)

lemma valid_blueprint_prompt: "s \<in> set valid_scenarios \<Longrightarrow> \<exists>p. map_of blueprint_prompts s = Some p"
  by (auto dest!: valid_cases simp: blueprint_prompts_def)

lemma valid_review_prompt: "s \<in> set valid_scenarios \<Longrightarrow> \<exists>p. map_of review_prompts s = Some p"
  by (auto dest!: valid_cases simp: review_prompts_def)

lemma valid_scenario: "s \<in> set valid_scenarios \<Longrightarrow> \<exists>p. map_of scenarios_table s = Some p"
  by (auto dest!: valid_cases simp: scenarios_table_def)

lemma system_of_chat_request [simp]: "system_of (chat_request e self p u) = Some p"
  by (simp add: system_of_def chat_request_def)

lemma chat_request_same_workflow:
  "same_workflow self self' \<Longrightarrow> chat_request e self' p u = chat_request e self p u"
  by (simp add: same_workflow_def chat_request_def)

lemma reply_cases:
  obtains (ok) c cs where "r = Reply (c # cs)" | (raises) m where "r = Raises m" | (empty) "r = Reply []"
proof (cases r)
  case (Raises m)
  then show ?thesis by (rule raises)
next
  case (Reply choices)
  then show ?thesis by (cases choices) (auto intro: ok empty)
qed

lemma research_step:
  assumes valid: "scenario_type self \<in> set valid_scenarios"
      and fresh: "outputs self = []"
      and run: "phase_research e sc (self, w) = (res, self', w')"
  shows "(res = Inr () \<and> progressed e (self, w) 1 (self', w')) \<or> aborted e (self, w) 0 res (self', w')"
proof -
  from valid obtain p u where p: "map_of research_prompts (scenario_type self) = Some p"
    and u: "map_of research_user_messages (scenario_type self) = Some u"
    using valid_research_prompt valid_research_user by blast
  let ?q = "chat_request e self p u"
  note spec = phase_research_spec [OF p u run]
  show ?thesis
  proof (cases "backend e (calls w) ?q" rule: reply_cases)
    case (ok c cs)
    with spec fresh p have "res = Inr () \<and> progressed e (self, w) 1 (self', w')"
      by (simp add: progressed_def stage_prompts_def stage_names_def)
    then show ?thesis ..
  next
    case (raises m)
    with spec fresh p have "aborted e (self, w) 0 res (self', w')"
      by (simp add: aborted_def stage_prompts_def stage_names_def)
    then show ?thesis ..
  next
    case empty
    with spec fresh p have "aborted e (self, w) 0 res (self', w')"
      by (simp add: aborted_def stage_prompts_def stage_names_def)
    then show ?thesis ..
  qed
qed

lemma phase_blueprint_spec:
  assumes "map_of blueprint_prompts (scenario_type self) = Some p"
      and "map_of (outputs self) ''analysis'' = Some v"
      and "phase_blueprint e sc (self, w) = (res, self', w')"
      and "u = ''Analysis:'' @ nl @ py_str v @ nl @ nl @ ''Create your design/blueprint.''"
  shows "calls w' = calls w @ [chat_request e self p u] \<and> unchanged w w' \<and> same_workflow self self' \<and>
         stage_effect (backend e (calls w) (chat_request e self p u)) ''blueprint'' self res self'"
proof (cases "backend e (calls w) (chat_request e self p u)")
  case (Raises m)
  with assms show ?thesis
    by (auto simp: phase_blueprint_def Let_def py_print_def chat_completions_create_def
                   chat_request_def unchanged_def same_workflow_def)
next
  case (Reply choices)
  with assms show ?thesis
    by (cases choices)
       (auto simp: phase_blueprint_def Let_def py_print_def chat_completions_create_def
                   first_content_def chat_request_def unchanged_def same_workflow_def)
qed

lemma phase_review_spec:
  assumes "map_of review_prompts (scenario_type self) = Some p"
      and "map_of (outputs self) ''blueprint'' = Some v"
      and "phase_review e sc (self, w) = (res, self', w')"
      and "u = ''Blueprint:'' @ nl @ py_str v @ nl @ nl @ ''Provide your review.''"
  shows "calls w' = calls w @ [chat_request e self p u] \<and> unchanged w w' \<and> same_workflow self self' \<and>
         stage_effect (backend e (calls w) (chat_request e self p u)) ''review'' self res self'"
proof (cases "backend e (calls w) (chat_request e self p u)")
  case (Raises m)
  with assms show ?thesis
    by (auto simp: phase_review_def Let_def py_print_def chat_completions_create_def
                   chat_request_def unchanged_def same_workflow_def)
next
  case (Reply choices)
  with assms show ?thesis
    by (cases choices)
       (auto simp: phase_review_def Let_def py_print_def chat_completions_create_def
                   first_content_def chat_request_def unchanged_def same_workflow_def)
qed

lemma succeeded_elim: "succeeded r \<Longrightarrow> \<exists>c cs. r = Reply (c # cs)"
  by (cases r rule: reply_cases) auto

lemma length_one: "length xs = Suc 0 \<longleftrightarrow> (\<exists>a. xs = [a])"
  by (auto simp: length_Suc_conv)

lemma length_two: "length xs = 2 \<longleftrightarrow> (\<exists>a b. xs = [a, b])"
  by (auto simp: length_Suc_conv numeral_2_eq_2)

lemma length_three: "length xs = 3 \<longleftrightarrow> (\<exists>a b c. xs = [a, b, c])"
  by (auto simp: length_Suc_conv numeral_3_eq_3)

lemma analysis_step:
  assumes valid: "scenario_type self0 \<in> set valid_scenarios"
      and before: "progressed e (self0, w0) 1 (self, w)"
      and run: "phase_analysis e sc (self, w) = (res, self', w')"
  shows "(res = Inr () \<and> progressed e (self0, w0) 2 (self', w')) \<or> aborted e (self0, w0) 1 res (self', w')"
proof -
  from before obtain q1 where calls: "calls w = calls w0 @ [q1]"
    and sys1: "system_of q1 = map_of research_prompts (scenario_type self0)"
    and ok1: "succeeded (backend e (calls w0) q1)"
    and outs: "outputs self = [(''research'', content_of (backend e (calls w0) q1))]"
    and unch: "unchanged w0 w" and same: "same_workflow self0 self"
    by (auto simp: progressed_def length_one stage_prompts_def stage_names_def)
  from same have st: "scenario_type self = scenario_type self0"
    by (simp add: same_workflow_def)
  from valid st obtain p where p: "map_of analysis_prompts (scenario_type self) = Some p"
    using valid_analysis_prompt by metis
  define v where "v = content_of (backend e (calls w0) q1)"
  define u where "u = ''Research findings:'' @ nl @ py_str v @ nl @ nl @ ''Provide your analysis.''"
  from outs have v: "map_of (outputs self) ''research'' = Some v"
    by (simp add: v_def)
  let ?q = "chat_request e self p u"
  note spec = phase_analysis_spec [OF p v run u_def]
  from spec unch same have frame: "unchanged w0 w' \<and> same_workflow self0 self'"
    by (simp add: unchanged_def same_workflow_def)
  show ?thesis
  proof (cases "backend e (calls w) ?q" rule: reply_cases)
    case (ok c cs)
    with spec frame calls sys1 ok1 outs p st
    have "res = Inr () \<and> progressed e (self0, w0) 2 (self', w')"
      by (simp add: progressed_def stage_prompts_def stage_names_def)
    then show ?thesis ..
  next
    case (raises m)
    with spec frame calls sys1 ok1 outs p st
    have "aborted e (self0, w0) 1 res (self', w')"
      by (simp add: aborted_def stage_prompts_def stage_names_def)
    then show ?thesis ..
  next
    case empty
    with spec frame calls sys1 ok1 outs p st
    have "aborted e (self0, w0) 1 res (self', w')"
      by (simp add: aborted_def stage_prompts_def stage_names_def)
    then show ?thesis ..
  qed
qed

lemma blueprint_step:
  assumes valid: "scenario_type self0 \<in> set valid_scenarios"
      and before: "progressed e (self0, w0) 2 (self, w)"
      and run: "phase_blueprint e sc (self, w) = (res, self', w')"
  shows "(res = Inr () \<and> progressed e (self0, w0) 3 (self', w')) \<or> aborted e (self0, w0) 2 res (self', w')"
proof -
  from before obtain q1 q2 where calls: "calls w = calls w0 @ [q1, q2]"
    and sys: "system_of q1 = map_of research_prompts (scenario_type self0)"
             "system_of q2 = map_of analysis_prompts (scenario_type self0)"
    and oks: "succeeded (backend e (calls w0) q1)" "succeeded (backend e (calls w0 @ [q1]) q2)"
    and outs: "outputs self = [(''research'', content_of (backend e (calls w0) q1)),
                               (''analysis'', content_of (backend e (calls w0 @ [q1]) q2))]"
    and unch: "unchanged w0 w" and same: "same_workflow self0 self"
    by (auto simp: progressed_def length_two stage_prompts_def stage_names_def)
  from same have st: "scenario_type self = scenario_type self0"
    by (simp add: same_workflow_def)
  from valid st obtain p where p: "map_of blueprint_prompts (scenario_type self) = Some p"
    using valid_blueprint_prompt by metis
  define v where "v = content_of (backend e (calls w0 @ [q1]) q2)"
  define u where "u = ''Analysis:'' @ nl @ py_str v @ nl @ nl @ ''Create your design/blueprint.''"
  from outs have v: "map_of (outputs self) ''analysis'' = Some v"
    by (simp add: v_def)
  let ?q = "chat_request e self p u"
  note spec = phase_blueprint_spec [OF p v run u_def]
  from spec unch same have frame: "unchanged w0 w' \<and> same_workflow self0 self'"
    by (simp add: unchanged_def same_workflow_def)
  show ?thesis
  proof (cases "backend e (calls w) ?q" rule: reply_cases)
    case (ok c cs)
    with spec frame calls sys oks outs p st
    have "res = Inr () \<and> progressed e (self0, w0) 3 (self', w')"
      by (simp add: progressed_def stage_prompts_def stage_names_def)
    then show ?thesis ..
  next
    case (raises m)
    with spec frame calls sys oks outs p st
    have "aborted e (self0, w0) 2 res (self', w')"
      by (simp add: aborted_def stage_prompts_def stage_names_def)
    then show ?thesis ..
  next
    case empty
    with spec frame calls sys oks outs p st
    have "aborted e (self0, w0) 2 res (self', w')"
      by (simp add: aborted_def stage_prompts_def stage_names_def)
    then show ?thesis ..
  qed
qed

lemma review_step:
  assumes valid: "scenario_type self0 \<in> set valid_scenarios"
      and before: "progressed e (self0, w0) 3 (self, w)"
      and run: "phase_review e sc (self, w) = (res, self', w')"
  shows "(res = Inr () \<and> progressed e (self0, w0) 4 (self', w')) \<or> aborted e (self0, w0) 3 res (self', w')"
proof -
  from before obtain q1 q2 q3 where calls: "calls w = calls w0 @ [q1, q2, q3]"
    and sys: "system_of q1 = map_of research_prompts (scenario_type self0)"
             "system_of q2 = map_of analysis_prompts (scenario_type self0)"
             "system_of q3 = map_of blueprint_prompts (scenario_type self0)"
    and oks: "succeeded (backend e (calls w0) q1)" "succeeded (backend e (calls w0 @ [q1]) q2)"
            "succeeded (backend e (calls w0 @ [q1, q2]) q3)"
    and outs: "outputs self = [(''research'', content_of (backend e (calls w0) q1)),
                               (''analysis'', content_of (backend e (calls w0 @ [q1]) q2)),
                               (''blueprint'', content_of (backend e (calls w0 @ [q1, q2]) q3))]"
    and unch: "unchanged w0 w" and same: "same_workflow self0 self"
    by (auto simp: progressed_def length_three stage_prompts_def stage_names_def)
  from same have st: "scenario_type self = scenario_type self0"
    by (simp add: same_workflow_def)
  from valid st obtain p where p: "map_of review_prompts (scenario_type self) = Some p"
    using valid_review_prompt by metis
  define v where "v = content_of (backend e (calls w0 @ [q1, q2]) q3)"
  define u where "u = ''Blueprint:'' @ nl @ py_str v @ nl @ nl @ ''Provide your review.''"
  from outs have v: "map_of (outputs self) ''blueprint'' = Some v"
    by (simp add: v_def)
  let ?q = "chat_request e self p u"
  note spec = phase_review_spec [OF p v run u_def]
  from spec unch same have frame: "unchanged w0 w' \<and> same_workflow self0 self'"
    by (simp add: unchanged_def same_workflow_def)
  show ?thesis
  proof (cases "backend e (calls w) ?q" rule: reply_cases)
    case (ok c cs)
    with spec frame calls sys oks outs p st
    have "res = Inr () \<and> progressed e (self0, w0) 4 (self', w')"
      by (simp add: progressed_def stage_prompts_def stage_names_def)
    then show ?thesis ..
  next
    case (raises m)
    with spec frame calls sys oks outs p st
    have "aborted e (self0, w0) 3 res (self', w')"
      by (simp add: aborted_def stage_prompts_def stage_names_def)
    then show ?thesis ..
  next
    case empty
    with spec frame calls sys oks outs p st
    have "aborted e (self0, w0) 3 res (self', w')"
      by (simp add: aborted_def stage_prompts_def stage_names_def)
    then show ?thesis ..
  qed
qed

text \<open>The four phases in sequence end aborted at some stage or with all four done.\<close>

lemma four_phases:
  assumes valid: "scenario_type self \<in> set valid_scenarios"
      and fresh: "outputs self = []"
      and run: "and_then (and_then (and_then
                  (phase_research e sc (self, w))
                  (phase_analysis e sc))
                  (phase_blueprint e sc))
                  (phase_review e sc) = (res, st')"
  shows "(res = Inr () \<and> progressed e (self, w) 4 st') \<or> (\<exists>k<4. aborted e (self, w) k res st')"
proof -
  obtain r1 s1 w1 where R1: "phase_research e sc (self, w) = (r1, s1, w1)"
    by (metis prod_cases3)
  from research_step [OF valid fresh R1]
  show ?thesis
  proof
    assume "aborted e (self, w) 0 r1 (s1, w1)"
    moreover from this have "\<exists>x. r1 = Inl x"
      by (auto simp: aborted_def)
    ultimately show ?thesis
      using run R1 by (auto simp: and_then_def)
  next
    assume A1: "r1 = Inr () \<and> progressed e (self, w) 1 (s1, w1)"
    obtain r2 s2 w2 where R2: "phase_analysis e sc (s1, w1) = (r2, s2, w2)"
      by (metis prod_cases3)
    from A1 analysis_step [OF valid _ R2]
    have "(r2 = Inr () \<and> progressed e (self, w) 2 (s2, w2)) \<or> aborted e (self, w) 1 r2 (s2, w2)"
      by blast
    then show ?thesis
    proof
      assume "aborted e (self, w) 1 r2 (s2, w2)"
      moreover from this have "\<exists>x. r2 = Inl x"
        by (auto simp: aborted_def)
      ultimately show ?thesis
        using run R1 R2 A1 by (auto simp: and_then_def)
    next
      assume A2: "r2 = Inr () \<and> progressed e (self, w) 2 (s2, w2)"
      obtain r3 s3 w3 where R3: "phase_blueprint e sc (s2, w2) = (r3, s3, w3)"
        by (metis prod_cases3)
      from A2 blueprint_step [OF valid _ R3]
      have "(r3 = Inr () \<and> progressed e (self, w) 3 (s3, w3)) \<or> aborted e (self, w) 2 r3 (s3, w3)"
        by blast
      then show ?thesis
      proof
        assume "aborted e (self, w) 2 r3 (s3, w3)"
        moreover from this have "\<exists>x. r3 = Inl x"
          by (auto simp: aborted_def)
        ultimately show ?thesis
          using run R1 R2 R3 A1 A2 by (auto simp: and_then_def)
      next
        assume A3: "r3 = Inr () \<and> progressed e (self, w) 3 (s3, w3)"
        obtain r4 s4 w4 where R4: "phase_review e sc (s3, w3) = (r4, s4, w4)"
          by (metis prod_cases3)
        from A3 review_step [OF valid _ R4]
        have "(r4 = Inr () \<and> progressed e (self, w) 4 (s4, w4)) \<or> aborted e (self, w) 3 r4 (s4, w4)"
          by blast
        then show ?thesis
        proof
          assume "aborted e (self, w) 3 r4 (s4, w4)"
          moreover from this have "\<exists>x. r4 = Inl x"
            by (auto simp: aborted_def)
          ultimately show ?thesis
            using run R1 R2 R3 R4 A1 A2 A3 by (auto simp: and_then_def)
        next
          assume A4: "r4 = Inr () \<and> progressed e (self, w) 4 (s4, w4)"
          then show ?thesis
            using run R1 R2 R3 R4 A1 A2 A3 by (auto simp: and_then_def)
        qed
      qed
    qed
  qed
qed

lemma print_summary_spec:
  assumes "print_summary e sc (self, w) = (res, self', w')"
  shows "self' = self \<and> calls w' = calls w \<and> stderr w' = stderr w \<and>
         environ w' = environ w \<and> kickoffs w' = kickoffs w \<and>
         files w' = (files w)(report_name (scenario_type self) (clock e (ticks w)) \<mapsto>
           snd (write_phases (outputs self) stage_names
                  (report_header sc (model self) (clock e (Suc (ticks w)))))) \<and>
         res = (case fst (write_phases (outputs self) stage_names
                            (report_header sc (model self) (clock e (Suc (ticks w))))) of
                  None \<Rightarrow> Inr () | Some x \<Rightarrow> Inl x)"
  using assms
  unfolding print_summary_def stage_names_def [symmetric]
  by (cases "fst (write_phases (outputs self) stage_names
                    (report_header sc (model self) (clock e (Suc (ticks w)))))")
     (auto simp add: Let_def py_print_def now_def report_name_def report_header_def case_prod_unfold)

lemma run_unfold:
  assumes "map_of (scenarios self) (scenario_type self) = Some sc"
  shows "\<exists>w1. run e (self, w) =
              and_then (and_then (and_then (and_then
                (phase_research e sc (self, w1))
                (phase_analysis e sc))
                (phase_blueprint e sc))
                (phase_review e sc))
                (print_summary e sc) \<and>
              calls w1 = calls w \<and> stderr w1 = stderr w \<and> files w1 = files w \<and>
              environ w1 = environ w \<and> kickoffs w1 = kickoffs w \<and> ticks w1 = Suc (ticks w)"
  unfolding run_def Let_def case_prod_unfold
  apply (simp only: assms option.case fst_conv snd_conv)
  apply (intro exI conjI)
        apply (rule refl)
       apply (simp_all add: py_print_def now_def)
  done

lemma run_spec:
  assumes valid: "scenario_type self \<in> set valid_scenarios"
      and fresh: "outputs self = []"
      and table: "map_of (scenarios self) (scenario_type self) = Some sc"
      and run: "run e (self, w) = (res, self', w')"
  shows "same_workflow self self' \<and> stderr w' = stderr w \<and> environ w' = environ w \<and>
         kickoffs w' = kickoffs w \<and>
         ((\<exists>k<4. run_aborted e (self, w) k (res, self', w')) \<or>
          run_completed e sc (self, w) (res, self', w'))"
proof -
  from run_unfold [OF table, of e w] obtain w1 where
    unf: "run e (self, w) =
            and_then (and_then (and_then (and_then
              (phase_research e sc (self, w1))
              (phase_analysis e sc))
              (phase_blueprint e sc))
              (phase_review e sc))
              (print_summary e sc)"
    and w1: "calls w1 = calls w" "stderr w1 = stderr w" "files w1 = files w"
            "environ w1 = environ w" "kickoffs w1 = kickoffs w" "ticks w1 = Suc (ticks w)"
    by blast
  obtain r4 s4 w4 where four:
    "and_then (and_then (and_then
       (phase_research e sc (self, w1))
       (phase_analysis e sc))
       (phase_blueprint e sc))
       (phase_review e sc) = (r4, s4, w4)"
    by (metis prod_cases3)
  from four_phases [OF valid fresh four]
  show ?thesis
  proof
    assume "\<exists>k<4. aborted e (self, w1) k r4 (s4, w4)"
    then obtain k where k: "k < 4" and ab: "aborted e (self, w1) k r4 (s4, w4)"
      by blast
    from ab have "\<exists>x. r4 = Inl x"
      by (auto simp: aborted_def)
    with run unf four have out: "res = r4" "self' = s4" "w' = w4"
      by (auto simp: and_then_def)
    from ab have "run_aborted e (self, w) k (res, self', w')"
      by (simp add: aborted_def run_aborted_def out w1 unchanged_def)
    moreover from ab have "same_workflow self self' \<and> stderr w' = stderr w \<and>
        environ w' = environ w \<and> kickoffs w' = kickoffs w"
      by (simp add: aborted_def out w1 unchanged_def)
    ultimately show ?thesis
      using k by blast
  next
    assume fin: "r4 = Inr () \<and> progressed e (self, w1) 4 (s4, w4)"
    with run unf four have ps: "print_summary e sc (s4, w4) = (res, self', w')"
      by (simp add: and_then_def)
    note spec = print_summary_spec [OF ps]
    from fin have same: "same_workflow self s4" and unch: "unchanged w1 w4"
      by (simp_all add: progressed_def)
    from same have fields: "scenario_type s4 = scenario_type self" "model s4 = model self"
      by (simp_all add: same_workflow_def)
    from fin spec have "run_completed e sc (self, w) (res, self', w')"
      using unch w1 fields
      by (simp add: progressed_def run_completed_def unchanged_def stage_names_def stage_prompts_def)
    moreover from spec same unch w1 have "same_workflow self self' \<and> stderr w' = stderr w \<and>
        environ w' = environ w \<and> kickoffs w' = kickoffs w"
      by (simp add: unchanged_def)
    ultimately show ?thesis
      by blast
  qed
qed

lemma length_replies [simp]: "length (replies e h qs) = length qs"
  by (induction qs arbitrary: h) simp_all

lemma init_fresh:
  assumes "ScenarioWorkflow_init e s w0 = (Inr self, w)"
  shows "outputs self = [] \<and> scenario_type self = s \<and> scenarios self = scenarios_table \<and>
         model self = OPENAI_MODEL (Config e) \<and> w = w0 \<and> validate_setup (Config e)"
  using assms by (auto simp: ScenarioWorkflow_init_def split: if_splits)

lemma new_calls_append [simp]: "calls w' = calls w @ qs \<Longrightarrow> new_calls w w' = qs"
  by (simp add: new_calls_def)

lemma fresh_run_outcome:
  assumes valid: "s \<in> set valid_scenarios"
      and init: "ScenarioWorkflow_init e s w0 = (Inr self, w)"
      and run: "run e (self, w) = (res, self', w')"
  obtains (aborted) k where "k < 4" "run_aborted e (self, w) k (res, self', w')"
    | (completed) sc where "map_of scenarios_table s = Some sc"
        "run_completed e sc (self, w) (res, self', w')"
proof -
  from init have fresh: "outputs self = []" "scenario_type self = s" "scenarios self = scenarios_table"
    by (simp_all add: init_fresh)
  from valid obtain sc where sc: "map_of scenarios_table s = Some sc"
    using valid_scenario by blast
  from valid fresh have v: "scenario_type self \<in> set valid_scenarios"
    by simp
  from sc fresh have t: "map_of (scenarios self) (scenario_type self) = Some sc"
    by simp
  from run_spec [OF v fresh(1) t run] aborted completed sc show thesis
    by blast
qed

lemma always_answered:
  assumes "\<And>h q. succeeded (backend e h q)"
  shows "list_all succeeded (replies e h qs)"
  by (induction qs arbitrary: h) (simp_all add: assms)

lemma write_phases_result:
  assumes "\<forall>n\<in>set names. map_of outs n \<noteq> None"
  shows "fst (write_phases outs names buf) =
         (if \<forall>n\<in>set names. \<exists>t. map_of outs n = Some (Some t) then None else Some TypeError)"
  using assms
proof (induction names arbitrary: buf)
  case Nil
  then show ?case by (simp add: write_phases.simps)
next
  case (Cons n names)
  then show ?case
    by (cases "map_of outs n"; cases "the (map_of outs n)")
       (auto simp: write_phases.simps Let_def)
qed

lemma main_unfold:
  assumes chosen: "chosen_scenario argv line = Some s"
      and valid: "s \<in> set valid_scenarios"
  shows "\<exists>w1. main e argv line w =
              (case ScenarioWorkflow_init e s w1 of
                 (Inl x, w2) \<Rightarrow> workflow_error x w2
               | (Inr workflow, w2) \<Rightarrow>
                   (case run e (workflow, w2) of
                      (Inl x, workflow, w3) \<Rightarrow> workflow_error x w3
                    | (Inr u, workflow, w3) \<Rightarrow>
                        (Inr (), py_print (nl @ check_mark @ '' Scenario completed successfully!'') w3))) \<and>
              calls w1 = calls w \<and> stderr w1 = stderr w \<and> files w1 = files w \<and>
              environ w1 = environ w \<and> kickoffs w1 = kickoffs w"
proof (cases "length argv > 1")
  case True
  with chosen valid have "argv ! 1 = s"
    by (simp add: chosen_scenario_def)
  with True valid show ?thesis
    unfolding main_def Let_def
    apply (simp only: if_True if_False prod.case sum.case simp_thms)
    apply (intro exI conjI)
         apply (rule refl)
        apply (simp_all add: py_print_def)
    done
next
  case False
  with chosen obtain l where l: "line = Some l" "py_strip l = s"
    by (auto simp: chosen_scenario_def)
  with False valid show ?thesis
    unfolding main_def Let_def py_input_def
    apply (simp only: if_True if_False prod.case sum.case option.case simp_thms)
    apply (intro exI conjI)
         apply (rule refl)
        apply (simp_all add: py_print_def)
    done
qed

lemma autogen_config_failure:
  assumes "\<not> validate_setup (Config e)"
  shows "fst (scenario_tester installed e argv line w) = 1 \<and>
         calls (snd (scenario_tester installed e argv line w)) = calls w \<and>
         files (snd (scenario_tester installed e argv line w)) = files w"
  using assms
  by (cases line)
     (simp_all add: scenario_tester_def main_def exit_status_def Let_def py_print_def py_input_def
        ScenarioWorkflow_init_def workflow_error_def)

lemma autogen_config_failure_message:
  assumes "\<not> validate_setup (Config e)"
      and "chosen_scenario argv line = Some s" and "s \<in> set valid_scenarios"
  shows "last (stdout (snd (scenario_tester True e argv line w))) =
         ''ERROR: Configuration validation failed!'' @ nl"
proof -
  from main_unfold [OF assms(2,3), of e w] obtain w1 where
    "main e argv line w =
       (case ScenarioWorkflow_init e s w1 of
          (Inl x, w2) \<Rightarrow> workflow_error x w2
        | (Inr workflow, w2) \<Rightarrow>
            (case run e (workflow, w2) of
               (Inl x, workflow, w3) \<Rightarrow> workflow_error x w3
             | (Inr u, workflow, w3) \<Rightarrow>
                 (Inr (), py_print (nl @ check_mark @ '' Scenario completed successfully!'') w3)))"
    by blast
  with assms(1) show ?thesis
    by (simp add: scenario_tester_def exit_status_def ScenarioWorkflow_init_def workflow_error_def
                  py_print_def)
qed

lemma crewai_config_failure:
  assumes "\<not> validate_config ce"
  shows "fst (crewai_demo ce argv w) = 1 \<and>
         kickoffs (snd (crewai_demo ce argv w)) = kickoffs w \<and>
         calls (snd (crewai_demo ce argv w)) = calls w \<and>
         files (snd (crewai_demo ce argv w)) = files w \<and>
         environ (snd (crewai_demo ce argv w)) = environ w \<and>
         last (stdout (snd (crewai_demo ce argv w))) =
           cross_mark @ '' Configuration validation failed. Please set up your .env file.'' @ nl"
  using assms
  by (simp add: crewai_demo_def crewai_main_def exit_status_def Let_def py_print_def)

lemma py_print_frame:
  "stderr (py_print s w) = stderr w" "calls (py_print s w) = calls w"
  "files (py_print s w) = files w" "ticks (py_print s w) = ticks w"
  "environ (py_print s w) = environ w" "kickoffs (py_print s w) = kickoffs w"
  by (simp_all add: py_print_def)

lemma print_lines_frame:
  "stderr (foldl (\<lambda>w s. py_print s w) w xs) = stderr w"
  "calls (foldl (\<lambda>w s. py_print s w) w xs) = calls w"
  "files (foldl (\<lambda>w s. py_print s w) w xs) = files w"
  "ticks (foldl (\<lambda>w s. py_print s w) w xs) = ticks w"
  "environ (foldl (\<lambda>w s. py_print s w) w xs) = environ w"
  "kickoffs (foldl (\<lambda>w s. py_print s w) w xs) = kickoffs w"
  by (induction xs arbitrary: w) (simp_all add: py_print_frame)

lemma failure_is_Exception: "is_Exception (failure r)"
  by (cases r rule: reply_cases) simp_all

lemma fresh_run_frame:
  assumes valid: "s \<in> set valid_scenarios"
      and init: "ScenarioWorkflow_init e s w0 = (Inr self, w)"
      and run: "run e (self, w) = (res, self', w')"
  shows "same_workflow self self' \<and> stderr w' = stderr w \<and> environ w' = environ w \<and>
         kickoffs w' = kickoffs w"
proof -
  from init have fresh: "outputs self = []" "scenario_type self = s" "scenarios self = scenarios_table"
    by (simp_all add: init_fresh)
  from valid obtain sc where sc: "map_of scenarios_table s = Some sc"
    using valid_scenario by blast
  from valid fresh have v: "scenario_type self \<in> set valid_scenarios"
    by simp
  from sc fresh have t: "map_of (scenarios self) (scenario_type self) = Some sc"
    by simp
  from run_spec [OF v fresh(1) t run] show ?thesis
    by blast
qed

lemma completed_result:
  assumes "run_completed e sc (self, w) (res, self', w')"
  shows "res = Inr () \<or> res = Inl TypeError"
proof -
  from assms obtain qs where qs: "length qs = 4"
    and outs: "outputs self' = zip stage_names (map content_of (replies e (calls w) qs))"
    and res: "res = (case fst (write_phases (outputs self') stage_names
                                 (report_header sc (model self) (clock e (Suc (Suc (ticks w)))))) of
                       None \<Rightarrow> Inr () | Some x \<Rightarrow> Inl x)"
    by (auto simp: run_completed_def)
  from qs obtain q1 q2 q3 q4 where four: "qs = [q1, q2, q3, q4]"
    by (auto simp: length_Suc_conv numeral_eq_Suc)
  from outs have present: "\<forall>n\<in>set stage_names. map_of (outputs self') n \<noteq> None"
    by (simp add: four stage_names_def)
  from res write_phases_result [OF present] show ?thesis
    by (simp split: if_splits)
qed

lemma run_result_kinds:
  assumes valid: "s \<in> set valid_scenarios"
      and init: "ScenarioWorkflow_init e s w0 = (Inr self, w)"
      and run: "run e (self, w) = (res, self', w')"
  shows "res = Inr () \<or> (\<exists>x. res = Inl x \<and> is_Exception x)"
  using valid init run
proof (cases rule: fresh_run_outcome)
  case (aborted k)
  then show ?thesis
    by (auto simp: run_aborted_def failure_is_Exception)
next
  case (completed sc)
  from completed_result [OF completed(2)] show ?thesis
    by auto
qed

lemma raised_reply_ends_run:
  assumes valid: "s \<in> set valid_scenarios"
      and init: "ScenarioWorkflow_init e s w0 = (Inr self, w)"
      and run: "run e (self, w) = (res, self', w')"
      and k: "k < length (new_calls w w')"
      and fails: "replies e (calls w) (new_calls w w') ! k = Raises m"
  shows "res = Inl (APIError m)"
  using valid init run
proof (cases rule: fresh_run_outcome)
  case (aborted j)
  then obtain qs where qs: "calls w' = calls w @ qs" "length qs = Suc j"
    and oks: "list_all succeeded (take j (replies e (calls w) qs))"
    and res: "res = Inl (failure (replies e (calls w) qs ! j))"
    by (auto simp: run_aborted_def)
  from qs have new: "new_calls w w' = qs"
    by simp
  have "k = j"
  proof (rule ccontr)
    assume "k \<noteq> j"
    with k new qs have "k < j"
      by simp
    with oks qs have "succeeded (replies e (calls w) qs ! k)"
      by (simp add: list_all_length)
    with fails new show False
      by simp
  qed
  with res fails new show ?thesis
    by simp
next
  case (completed sc)
  then obtain qs where qs: "calls w' = calls w @ qs" "length qs = 4"
    and oks: "list_all succeeded (replies e (calls w) qs)"
    by (auto simp: run_completed_def)
  from qs have new: "new_calls w w' = qs"
    by simp
  from oks k new have "succeeded (replies e (calls w) qs ! k)"
    by (simp add: list_all_length)
  with fails new show ?thesis
    by simp
qed

lemma main_outcome:
  assumes chosen: "chosen_scenario argv line = Some s"
      and valid: "s \<in> set valid_scenarios"
      and conf: "validate_setup (Config e)"
  obtains w1 self res self' w3 where
    "calls w1 = calls w" "stderr w1 = stderr w"
    "ScenarioWorkflow_init e s w1 = (Inr self, w1)"
    "run e (self, w1) = (res, self', w3)"
    "main e argv line w =
       (case res of
          Inl x \<Rightarrow> workflow_error x w3
        | Inr u \<Rightarrow> (Inr (), py_print (nl @ check_mark @ '' Scenario completed successfully!'') w3))"
proof -
  from main_unfold [OF chosen valid, of e w] obtain w1 where
    unf: "main e argv line w =
       (case ScenarioWorkflow_init e s w1 of
          (Inl x, w2) \<Rightarrow> workflow_error x w2
        | (Inr workflow, w2) \<Rightarrow>
            (case run e (workflow, w2) of
               (Inl x, workflow, w3) \<Rightarrow> workflow_error x w3
             | (Inr u, workflow, w3) \<Rightarrow>
                 (Inr (), py_print (nl @ check_mark @ '' Scenario completed successfully!'') w3)))"
    and w1: "calls w1 = calls w" "stderr w1 = stderr w"
    by blast
  from conf obtain self where init: "ScenarioWorkflow_init e s w1 = (Inr self, w1)"
    by (simp add: ScenarioWorkflow_init_def)
  obtain res self' w3 where run: "run e (self, w1) = (res, self', w3)"
    by (metis prod_cases3)
  from unf init run
  have "main e argv line w =
       (case res of
          Inl x \<Rightarrow> workflow_error x w3
        | Inr u \<Rightarrow> (Inr (), py_print (nl @ check_mark @ '' Scenario completed successfully!'') w3))"
    by (simp split: sum.splits)
  with w1 init run that show thesis
    by blast
qed

lemma crewai_main_raises:
  assumes "validate_config ce" and "\<And>c i. kickoff ce c i = Inl x"
  shows "\<exists>W. crewai_main ce industry location startup_stage target_audience analysis_focus category w =
               crew_error x W \<and>
             stderr W = stderr w \<and> files W = files w \<and> calls W = calls w"
  unfolding crewai_main_def Let_def
  apply (simp only: assms if_True if_False sum.case simp_thms)
  apply (intro exI conjI)
     apply (rule refl)
    apply (simp_all add: py_print_frame print_lines_frame)
  done

lemma crewai_main_returns:
  assumes "validate_config ce" and "\<And>c i. kickoff ce c i = Inr r"
  shows "fst (crewai_main ce industry location startup_stage target_audience analysis_focus
                category w) = Inr ()"
  unfolding crewai_main_def Let_def
  by (simp only: assms if_True if_False sum.case simp_thms fst_conv)

lemma crew_error_spec:
  assumes "is_Exception x"
  shows "fst (crew_error x w) = Inr () \<and>
         stderr (snd (crew_error x w)) = stderr w @ [x] \<and>
         files (snd (crew_error x w)) = files w \<and>
         nl @ cross_mark @ '' Error during crew execution: '' @ exn_str x @ nl
           \<in> set (stdout (snd (crew_error x w)))"
  using assms by (simp add: crew_error_def Let_def py_print_def)

lemma workflow_error_spec:
  assumes "is_Exception x"
  shows "fst (workflow_error x w) = Inr () \<and>
         stderr (snd (workflow_error x w)) = stderr w @ [x] \<and>
         calls (snd (workflow_error x w)) = calls w \<and>
         last (stdout (snd (workflow_error x w))) =
           nl @ cross_mark @ '' Error during workflow execution: '' @ exn_str x @ nl"
  using assms by (simp add: workflow_error_def Let_def py_print_def)

lemma exit_status_returned: "fst r = Inr () \<Longrightarrow> fst (exit_status r) = 0"
  by (cases r) (simp add: exit_status_def)

lemma failing_run_trace:
  assumes "calls w = []"
  shows "new_calls w (snd (snd (run failing_env (sample_workflow, w)))) =
     [\<lparr>req_model = ''gpt-4o-mini'', req_temperature = 1, req_max_tokens = 500,
       req_messages = [(''system'', the (map_of research_prompts ''conference'')),
                       (''user'', the (map_of research_user_messages ''conference''))]\<rparr>,
      \<lparr>req_model = ''gpt-4o-mini'', req_temperature = 1, req_max_tokens = 500,
       req_messages = [(''system'', the (map_of analysis_prompts ''conference'')),
                       (''user'', ''Research findings:'' @ nl @ ''ok'' @ nl @ nl @ ''Provide your analysis.'')]\<rparr>,
      \<lparr>req_model = ''gpt-4o-mini'', req_temperature = 1, req_max_tokens = 500,
       req_messages = [(''system'', the (map_of blueprint_prompts ''conference'')),
                       (''user'', ''Analysis:'' @ nl @ ''ok'' @ nl @ nl @ ''Create your design/blueprint.'')]\<rparr>]"
  using assms
  by (simp add: new_calls_def run_def Let_def and_then_def phase_research_def phase_analysis_def
      phase_blueprint_def phase_review_def print_summary_def py_print_def now_def
      chat_completions_create_def first_content_def failing_env_def sample_workflow_def
      sample_config_def scenarios_table_def research_prompts_def
      research_user_messages_def analysis_prompts_def blueprint_prompts_def review_prompts_def)

lemma workflow_error_calls: "calls (snd (workflow_error x w)) = calls w"
  by (simp add: workflow_error_def Let_def py_print_def)

lemma main_trace:
  assumes chosen: "chosen_scenario argv line = Some s"
      and valid: "s \<in> set valid_scenarios"
      and conf: "validate_setup (Config e)"
  obtains w1 self res self' w3 where
    "calls w1 = calls w"
    "ScenarioWorkflow_init e s w1 = (Inr self, w1)"
    "run e (self, w1) = (res, self', w3)"
    "new_calls w (snd (main e argv line w)) = new_calls w1 w3"
proof -
  from chosen valid conf obtain w1 self res self' w3 where
    w1: "calls w1 = calls w"
    and init: "ScenarioWorkflow_init e s w1 = (Inr self, w1)"
    and run: "run e (self, w1) = (res, self', w3)"
    and main: "main e argv line w =
       (case res of
          Inl x \<Rightarrow> workflow_error x w3
        | Inr u \<Rightarrow> (Inr (), py_print (nl @ check_mark @ '' Scenario completed successfully!'') w3))"
    by (rule main_outcome)
  from main have "calls (snd (main e argv line w)) = calls w3"
    by (cases res) (simp_all add: workflow_error_calls py_print_frame)
  then have "new_calls w (snd (main e argv line w)) = new_calls w1 w3"
    by (simp add: new_calls_def w1)
  with w1 init run that show thesis
    by blast
qed

lemma report_name_sample:
  "report_name ''conference'' (sample_clock 1) = ''scenario_conference_20250102_030406.txt''"
  by (simp add: report_name_def sample_clock_def strftime.simps directive.simps dec.simps zfill_def
                char_of_def bit_Suc_0_iff)

lemma py_upper_stage_names:
  "map py_upper stage_names = [''RESEARCH'', ''ANALYSIS'', ''BLUEPRINT'', ''REVIEW'']"
  by (simp add: stage_names_def py_upper_def upper_char_def Let_def char_of_def bit_Suc_0_iff)

lemma write_four_texts:
  "write_phases
     [(''research'', Some t1), (''analysis'', Some t2), (''blueprint'', Some t3), (''review'', Some t4)]
     stage_names buf =
   (None, buf @ report_section ''research'' t1 @ report_section ''analysis'' t2 @
          report_section ''blueprint'' t3 @ report_section ''review'' t4)"
  by (simp add: stage_names_def write_phases.simps Let_def report_section_def)

lemma answered_run_completed:
  assumes valid: "s \<in> set valid_scenarios"
      and init: "ScenarioWorkflow_init e s w0 = (Inr self, w)"
      and run: "run e (self, w) = (res, self', w')"
      and answers: "\<And>h q. succeeded (backend e h q)"
  shows "\<exists>sc. map_of scenarios_table s = Some sc \<and> run_completed e sc (self, w) (res, self', w')"
  using valid init run
proof (cases rule: fresh_run_outcome)
  case (aborted k)
  then obtain qs where "length qs = Suc k" "\<not> succeeded (replies e (calls w) qs ! k)"
    by (auto simp: run_aborted_def)
  moreover have "list_all succeeded (replies e (calls w) qs)"
    by (rule always_answered) (rule answers)
  ultimately show ?thesis
    by (simp add: list_all_length)
next
  case (completed sc)
  then show ?thesis
    by blast
qed

lemma successful_run_report:
  assumes valid: "s \<in> set valid_scenarios"
      and init: "ScenarioWorkflow_init e s w0 = (Inr self, w)"
      and table: "map_of scenarios_table s = Some sc"
      and run: "run e (self, w) = (Inr (), self', w')"
  shows "\<exists>t1 t2 t3 t4.
           outputs self' =
             [(''research'', Some t1), (''analysis'', Some t2),
              (''blueprint'', Some t3), (''review'', Some t4)] \<and>
           files w' =
             (files w)(report_name s (clock e (Suc (ticks w))) \<mapsto>
               report_header sc (OPENAI_MODEL (Config e)) (clock e (Suc (Suc (ticks w)))) @
               report_section ''research'' t1 @ report_section ''analysis'' t2 @
               report_section ''blueprint'' t3 @ report_section ''review'' t4)"
  using valid init run
proof (cases rule: fresh_run_outcome)
  case (aborted k)
  then show ?thesis
    by (auto simp: run_aborted_def)
next
  case (completed sc')
  with table have sc: "sc' = sc"
    by simp
  from init have st: "scenario_type self = s" and m: "model self = OPENAI_MODEL (Config e)"
    by (simp_all add: init_fresh)
  let ?hdr = "report_header sc (model self) (clock e (Suc (Suc (ticks w))))"
  from completed(2) sc obtain qs where qs: "length qs = 4"
    and outs: "outputs self' = zip stage_names (map content_of (replies e (calls w) qs))"
    and files: "files w' = (files w)(report_name s (clock e (Suc (ticks w))) \<mapsto>
                  snd (write_phases (outputs self') stage_names ?hdr))"
    and res: "Inr () = (case fst (write_phases (outputs self') stage_names ?hdr) of
                          None \<Rightarrow> Inr () | Some x \<Rightarrow> Inl x)"
    by (auto simp: run_completed_def st)
  from qs obtain q1 q2 q3 q4 where four: "qs = [q1, q2, q3, q4]"
    by (auto simp: length_Suc_conv numeral_eq_Suc)
  from outs have present: "\<forall>n\<in>set stage_names. map_of (outputs self') n \<noteq> None"
    by (simp add: four stage_names_def)
  from res have "fst (write_phases (outputs self') stage_names ?hdr) = None"
    by (simp split: option.splits)
  with write_phases_result [OF present, of ?hdr]
  have "\<forall>n\<in>set stage_names. \<exists>t. map_of (outputs self') n = Some (Some t)"
    by (simp split: if_splits)
  with outs obtain t1 t2 t3 t4 where texts:
    "outputs self' = [(''research'', Some t1), (''analysis'', Some t2),
                      (''blueprint'', Some t3), (''review'', Some t4)]"
    by (auto simp: four stage_names_def)
  with files have "files w' =
      (files w)(report_name s (clock e (Suc (ticks w))) \<mapsto>
        ?hdr @ report_section ''research'' t1 @ report_section ''analysis'' t2 @
        report_section ''blueprint'' t3 @ report_section ''review'' t4)"
    by (simp add: write_four_texts)
  with texts m show ?thesis
    by auto
qed

lemma answering_run:
  assumes run: "run answering_env (sample_workflow, empty_world) = (res, self', w')"
  shows "res = Inr () \<and>
         files w' ''scenario_conference_20250102_030406.txt'' \<noteq> None \<and>
         dom (files w') = {''scenario_conference_20250102_030406.txt''}"
proof -
  have valid: "''conference'' \<in> set valid_scenarios"
    by (simp add: valid_scenarios_def)
  have init: "ScenarioWorkflow_init answering_env ''conference'' empty_world =
              (Inr sample_workflow, empty_world)"
    by (simp add: ScenarioWorkflow_init_def answering_env_def sample_config_def sample_workflow_def)
  have "\<And>h q. succeeded (backend answering_env h q)"
    by (simp add: answering_env_def)
  from answered_run_completed [OF valid init run this] obtain sc qs where
    qs: "length qs = 4"
    and outs: "outputs self' = zip stage_names (map content_of (replies answering_env (calls empty_world) qs))"
    and files: "files w' = (files empty_world)
                  (report_name (scenario_type sample_workflow) (clock answering_env (Suc (ticks empty_world))) \<mapsto>
                   snd (write_phases (outputs self') stage_names
                     (report_header sc (model sample_workflow)
                        (clock answering_env (Suc (Suc (ticks empty_world)))))))"
    and res: "res = (case fst (write_phases (outputs self') stage_names
                                 (report_header sc (model sample_workflow)
                                    (clock answering_env (Suc (Suc (ticks empty_world)))))) of
                       None \<Rightarrow> Inr () | Some x \<Rightarrow> Inl x)"
    by (auto simp: run_completed_def)
  from qs obtain q1 q2 q3 q4 where four: "qs = [q1, q2, q3, q4]"
    by (auto simp: length_Suc_conv numeral_eq_Suc)
  from outs have texts: "outputs self' =
      [(''research'', Some ''ok''), (''analysis'', Some ''ok''),
       (''blueprint'', Some ''ok''), (''review'', Some ''ok'')]"
    by (simp add: four stage_names_def answering_env_def)
  from res have r: "res = Inr ()"
    by (simp add: texts write_four_texts)
  have name: "report_name (scenario_type sample_workflow) (clock answering_env (Suc (ticks empty_world))) =
              ''scenario_conference_20250102_030406.txt''"
    using report_name_sample by (simp add: sample_workflow_def answering_env_def empty_world_def)
  from files have "files w' = (files empty_world)(''scenario_conference_20250102_030406.txt'' \<mapsto>
      snd (write_phases (outputs self') stage_names
        (report_header sc (model sample_workflow)
           (clock answering_env (Suc (Suc (ticks empty_world)))))))"
    unfolding name .
  then have "files w' ''scenario_conference_20250102_030406.txt'' \<noteq> None"
    and "dom (files w') = {''scenario_conference_20250102_030406.txt''}"
    by (simp_all add: empty_world_def)
  with r show ?thesis
    by simp
qed

lemma phase_research_requests:
  "new_calls w (snd (snd (phase_research e sc (self, w)))) =
     (case map_of research_prompts (scenario_type self) of
        None \<Rightarrow> []
      | Some p \<Rightarrow>
          (case map_of research_user_messages (scenario_type self) of
             None \<Rightarrow> []
           | Some u \<Rightarrow> [chat_request e self p u]))"
  by (simp add: new_calls_def phase_research_def Let_def py_print_def chat_completions_create_def
                first_content_def chat_request_def
           split: option.splits reply.splits list.splits)

lemma phase_analysis_requests:
  "new_calls w (snd (snd (phase_analysis e sc (self, w)))) =
     (case map_of analysis_prompts (scenario_type self) of
        None \<Rightarrow> []
      | Some p \<Rightarrow>
          (case map_of (outputs self) ''research'' of
             None \<Rightarrow> []
           | Some v \<Rightarrow>
               [chat_request e self p
                  (''Research findings:'' @ nl @ py_str v @ nl @ nl @ ''Provide your analysis.'')]))"
  by (simp add: new_calls_def phase_analysis_def Let_def py_print_def chat_completions_create_def
                first_content_def chat_request_def
           split: option.splits reply.splits list.splits)

lemma phase_blueprint_requests:
  "new_calls w (snd (snd (phase_blueprint e sc (self, w)))) =
     (case map_of blueprint_prompts (scenario_type self) of
        None \<Rightarrow> []
      | Some p \<Rightarrow>
          (case map_of (outputs self) ''analysis'' of
             None \<Rightarrow> []
           | Some v \<Rightarrow>
               [chat_request e self p
                  (''Analysis:'' @ nl @ py_str v @ nl @ nl @ ''Create your design/blueprint.'')]))"
  by (simp add: new_calls_def phase_blueprint_def Let_def py_print_def chat_completions_create_def
                first_content_def chat_request_def
           split: option.splits reply.splits list.splits)

lemma phase_review_requests:
  "new_calls w (snd (snd (phase_review e sc (self, w)))) =
     (case map_of review_prompts (scenario_type self) of
        None \<Rightarrow> []
      | Some p \<Rightarrow>
          (case map_of (outputs self) ''blueprint'' of
             None \<Rightarrow> []
           | Some v \<Rightarrow>
               [chat_request e self p
                  (''Blueprint:'' @ nl @ py_str v @ nl @ nl @ ''Provide your review.'')]))"
  by (simp add: new_calls_def phase_review_def Let_def py_print_def chat_completions_create_def
                first_content_def chat_request_def
           split: option.splits reply.splits list.splits)

lemma chat_request_outputs:
  "chat_request e (self\<lparr>outputs := other\<rparr>) p u = chat_request e self p u"
  by (simp add: chat_request_def)

section \<open>Properties\<close>

text \<open>
  C9. Whatever its arguments and whatever the state it is called in, each of the four
  tools of the startup analysis script returns the instructional text below, line by
  line: a "Research task" line with the two arguments inserted (an omitted optional
  argument stands for its default, "US" or "2025"), a fixed list of numbered
  instructions and a fixed closing remark. The search query the body builds is not part
  of the result. The state comes back as it was: no backend request, no kickoff, no
  output, no file.
\<close>

theorem tools_return_templated_text:
  "search_emerging_startups industry location_arg w =
     (py_join nl
        ['''',
         ''    Research task: Find emerging startups in '' @ industry @ '' within '' @ (case location_arg of None \<Rightarrow> ''US'' | Some v \<Rightarrow> v) @ ''.'',
         '''',
         ''    Please research and provide:'',
         ''    1. Recently funded startups (check Crunchbase, PitchBook, AngelList)'',
         ''    2. Startup founding teams and their backgrounds'',
         ''    3. Funding rounds and investor information'',
         ''    4. Problem they're solving and target market'',
         ''    5. Current traction and growth metrics'',
         ''    6. Notable achievements and press coverage'',
         '''',
         ''    Focus on startups founded within the last 3 years with recent activity.'',
         ''    ''],
      w) \<and>
   analyze_competitors startup_name industry w =
     (py_join nl
        ['''',
         ''    Research task: Analyze competitors of '' @ startup_name @ '' in the '' @ industry @ '' space.'',
         '''',
         ''    Please research and provide:'',
         ''    1. Direct competitors with similar offerings (check G2, Capterra, ProductHunt)'',
         ''    2. Market share and positioning of each competitor'',
         ''    3. Competitive advantages and unique selling propositions'',
         ''    4. Pricing strategies and business models'',
         ''    5. Customer reviews and satisfaction ratings'',
         ''    6. Recent product launches and strategic moves'',
         ''    7. Strengths and weaknesses analysis'',
         '''',
         ''    Include both established players and emerging competitors.'',
         ''    Focus on actionable competitive insights.'',
         ''    ''],
      w) \<and>
   analyze_product_features product_name category w =
     (py_join nl
        ['''',
         ''    Research task: Analyze features of '' @ product_name @ '' in the '' @ category @ '' space.'',
         '''',
         ''    Please research and provide:'',
         ''    1. Core features and functionality overview'',
         ''    2. User reviews and feature-specific feedback (check ProductHunt, G2, Reddit)'',
         ''    3. Feature comparison with competing products'',
         ''    4. Most requested features from users'',
         ''    5. Technical specifications and integrations'',
         ''    6. Usability and user experience insights'',
         ''    7. Feature gaps and improvement opportunities'',
         '''',
         ''    Include both positive feedback and pain points.'',
         ''    Focus on actionable insights for product development.'',
         ''    ''],
      w) \<and>
   research_market_trends industry timeframe_arg w =
     (py_join nl
        ['''',
         ''    Research task: Analyze market trends in the '' @ industry @ '' sector for '' @ (case timeframe_arg of None \<Rightarrow> ''2025'' | Some v \<Rightarrow> v) @ ''.'',
         '''',
         ''    Please research and provide:'',
         ''    1. Current market size and growth projections'',
         ''    2. Key trends driving the industry (check Gartner, McKinsey, industry reports)'',
         ''    3. Emerging technologies and innovations'',
         ''    4. Consumer behavior shifts and preferences'',
         ''    5. Regulatory changes and their impact'',
         ''    6. Investment trends and VC interest'',
         ''    7. Market opportunities and white spaces'',
         '''',
         ''    Provide data-driven insights with credible sources.'',
         ''    Focus on actionable trends for startup opportunities.'',
         ''    ''],
      w)"
  by (simp add: search_emerging_startups_def analyze_competitors_def analyze_product_features_def research_market_trends_def)

text \<open>
  C1. In a run of a fresh workflow for a configured scenario in which the backend
  answers every request it gets, the run makes exactly four requests, carrying the
  system prompts of research, analysis, blueprint and review in this order; afterwards
  \<open>outputs\<close> holds exactly four entries, keyed by these four distinct names in this order,
  each with the content the backend returned for its stage. The run then returns, unless
  a returned content is \<open>None\<close>, which the report writer rejects with a \<open>TypeError\<close>.
\<close>

theorem run_executes_four_stages_in_order:
  assumes valid: "s \<in> set valid_scenarios"
      and init: "ScenarioWorkflow_init e s w0 = (Inr self, w)"
      and run: "run e (self, w) = (res, self', w')"
      and answered: "list_all succeeded (replies e (calls w) (new_calls w w'))"
  shows "calls w' = calls w @ new_calls w w' \<and>
         map system_of (new_calls w w') =
           [map_of research_prompts s, map_of analysis_prompts s,
            map_of blueprint_prompts s, map_of review_prompts s] \<and>
         map fst (outputs self') = [''research'', ''analysis'', ''blueprint'', ''review''] \<and>
         map snd (outputs self') = map content_of (replies e (calls w) (new_calls w w')) \<and>
         distinct (map fst (outputs self')) \<and>
         res = (if list_all (\<lambda>v. v \<noteq> None) (map snd (outputs self')) then Inr () else Inl TypeError)"
proof -
  from init have st: "scenario_type self = s" and m: "model self = OPENAI_MODEL (Config e)"
    by (simp_all add: init_fresh)
  from valid init run show ?thesis
  proof (cases rule: fresh_run_outcome)
    case (aborted j)
    then obtain qs where qs: "calls w' = calls w @ qs" "length qs = Suc j"
      and bad: "\<not> succeeded (replies e (calls w) qs ! j)"
      by (auto simp: run_aborted_def)
    from qs have "new_calls w w' = qs"
      by simp
    with answered qs have "succeeded (replies e (calls w) qs ! j)"
      by (simp add: list_all_length)
    with bad show ?thesis
      by simp
  next
    case (completed sc)
    then obtain qs where qs: "calls w' = calls w @ qs" "length qs = 4"
      and sys: "map system_of qs = stage_prompts s"
      and outs: "outputs self' = zip stage_names (map content_of (replies e (calls w) qs))"
      and res: "res = (case fst (write_phases (outputs self') stage_names
                                   (report_header sc (model self) (clock e (Suc (Suc (ticks w)))))) of
                         None \<Rightarrow> Inr () | Some x \<Rightarrow> Inl x)"
      by (auto simp: run_completed_def st)
    from qs have new: "new_calls w w' = qs"
      by simp
    from qs(2) obtain q1 q2 q3 q4 where four: "qs = [q1, q2, q3, q4]"
      by (auto simp: length_Suc_conv numeral_eq_Suc)
    from outs have keys: "map fst (outputs self') = [''research'', ''analysis'', ''blueprint'', ''review'']"
      and vals: "map snd (outputs self') = map content_of (replies e (calls w) qs)"
      by (simp_all add: four stage_names_def)
    from outs have present: "\<forall>n\<in>set stage_names. map_of (outputs self') n \<noteq> None"
      by (simp add: four stage_names_def)
    have "(\<forall>n\<in>set stage_names. \<exists>t. map_of (outputs self') n = Some (Some t)) \<longleftrightarrow>
          list_all (\<lambda>v. v \<noteq> None) (map snd (outputs self'))"
      by (auto simp: outs four stage_names_def)
    with res write_phases_result [OF present]
    have "res = (if list_all (\<lambda>v. v \<noteq> None) (map snd (outputs self')) then Inr () else Inl TypeError)"
      by simp
    with qs new sys keys vals show ?thesis
      by (simp add: stage_prompts_def)
  qed
qed

theorem run_executes_four_stages_in_order_witness:
  "''conference'' \<in> set valid_scenarios \<and>
   ScenarioWorkflow_init answering_env ''conference'' empty_world = (Inr sample_workflow, empty_world) \<and>
   list_all succeeded
     (replies answering_env (calls empty_world)
        (new_calls empty_world (snd (snd (run answering_env (sample_workflow, empty_world)))))) \<and>
   length (new_calls empty_world (snd (snd (run answering_env (sample_workflow, empty_world))))) = 4 \<and>
   map fst (outputs (fst (snd (run answering_env (sample_workflow, empty_world))))) =
     [''research'', ''analysis'', ''blueprint'', ''review''] \<and>
   map snd (outputs (fst (snd (run answering_env (sample_workflow, empty_world))))) =
     [Some ''ok'', Some ''ok'', Some ''ok'', Some ''ok''] \<and>
   fst (run answering_env (sample_workflow, empty_world)) = Inr ()"
proof -
  let ?out = "run answering_env (sample_workflow, empty_world)"
  let ?new = "new_calls empty_world (snd (snd ?out))"
  have valid: "''conference'' \<in> set valid_scenarios"
    by (simp add: valid_scenarios_def)
  have init: "ScenarioWorkflow_init answering_env ''conference'' empty_world =
              (Inr sample_workflow, empty_world)"
    by (simp add: ScenarioWorkflow_init_def answering_env_def sample_config_def sample_workflow_def)
  have run: "run answering_env (sample_workflow, empty_world) = (fst ?out, fst (snd ?out), snd (snd ?out))"
    by simp
  have answered: "list_all succeeded (replies answering_env (calls empty_world) ?new)"
    by (rule always_answered) (simp add: answering_env_def)
  note four = run_executes_four_stages_in_order [OF valid init run answered]
  from four have "map system_of ?new =
      [map_of research_prompts ''conference'', map_of analysis_prompts ''conference'',
       map_of blueprint_prompts ''conference'', map_of review_prompts ''conference'']"
    by blast
  then have "length (map system_of ?new) = 4"
    by simp
  then have len: "length ?new = 4"
    by simp
  from four have keys: "map fst (outputs (fst (snd ?out))) =
      [''research'', ''analysis'', ''blueprint'', ''review'']"
    by blast
  from four have "map snd (outputs (fst (snd ?out))) =
      map content_of (replies answering_env (calls empty_world) ?new)"
    by blast
  moreover from len obtain q1 q2 q3 q4 where "?new = [q1, q2, q3, q4]"
    by (auto simp: length_Suc_conv numeral_eq_Suc)
  ultimately have vals: "map snd (outputs (fst (snd ?out))) =
      [Some ''ok'', Some ''ok'', Some ''ok'', Some ''ok'']"
    by (simp add: answering_env_def)
  from four have "fst ?out =
      (if list_all (\<lambda>v. v \<noteq> None) (map snd (outputs (fst (snd ?out)))) then Inr () else Inl TypeError)"
    by blast
  with vals have res: "fst ?out = Inr ()"
    by simp
  from valid init answered len keys vals res show ?thesis
    by blast
qed

text \<open>
  C2. The request a stage sends depends on \<open>outputs\<close> only through the entries of
  strictly earlier stages: if the entries of the first k stages are the same in another
  context, stage k + 1 (the phase with index k) sends the same request, or raises
  before sending one in both, whatever the other context holds for that stage itself
  and for later stages.
\<close>

theorem stage_request_reads_only_earlier_outputs:
  assumes k: "k < 4"
      and agree: "map (map_of (outputs self)) (take k stage_names) =
                  map (map_of other) (take k stage_names)"
  shows "new_calls w (snd (snd ((stage_functions ! k) e sc (self, w)))) =
         new_calls w (snd (snd ((stage_functions ! k) e sc (self\<lparr>outputs := other\<rparr>, w))))"
proof -
  from k consider "k = 0" | "k = 1" | "k = 2" | "k = 3"
    by linarith
  then show ?thesis
  proof cases
    case 1
    then show ?thesis
      by (simp add: stage_functions_def phase_research_requests chat_request_outputs split: option.splits)
  next
    case 2
    with agree show ?thesis
      by (simp add: stage_functions_def stage_names_def phase_analysis_requests chat_request_outputs split: option.splits)
  next
    case 3
    with agree show ?thesis
      by (simp add: stage_functions_def stage_names_def phase_blueprint_requests chat_request_outputs split: option.splits)
  next
    case 4
    with agree show ?thesis
      by (simp add: stage_functions_def stage_names_def phase_review_requests chat_request_outputs split: option.splits)
  qed
qed

theorem stage_request_reads_only_earlier_outputs_witness:
  "(2::nat) < 4 \<and>
   map (map_of (outputs (sample_workflow\<lparr>outputs :=
          [(''research'', Some ''found''), (''analysis'', Some ''weighed'')]\<rparr>)))
       (take 2 stage_names) =
   map (map_of [(''research'', Some ''found''), (''analysis'', Some ''weighed''),
                (''blueprint'', Some ''stale plan''), (''review'', Some ''stale review'')])
       (take 2 stage_names) \<and>
   new_calls empty_world (snd (snd (phase_blueprint answering_env sample_scenario
     (sample_workflow\<lparr>outputs := [(''research'', Some ''found''), (''analysis'', Some ''weighed'')]\<rparr>,
      empty_world)))) =
   new_calls empty_world (snd (snd (phase_blueprint answering_env sample_scenario
     (sample_workflow\<lparr>outputs :=
        [(''research'', Some ''found''), (''analysis'', Some ''weighed''),
         (''blueprint'', Some ''stale plan''), (''review'', Some ''stale review'')]\<rparr>,
      empty_world))))"
proof -
  let ?a = "sample_workflow\<lparr>outputs := [(''research'', Some ''found''), (''analysis'', Some ''weighed'')]\<rparr>"
  let ?other = "[(''research'', Some ''found''), (''analysis'', Some ''weighed''),
                 (''blueprint'', Some ''stale plan''), (''review'', Some ''stale review'')]"
  have k: "(2::nat) < 4"
    by simp
  have agree: "map (map_of (outputs ?a)) (take 2 stage_names) = map (map_of ?other) (take 2 stage_names)"
    by (simp add: stage_names_def)
  from stage_request_reads_only_earlier_outputs [OF k agree, of empty_world answering_env sample_scenario]
  have "new_calls empty_world (snd (snd (phase_blueprint answering_env sample_scenario (?a, empty_world)))) =
        new_calls empty_world (snd (snd (phase_blueprint answering_env sample_scenario
          (?a\<lparr>outputs := ?other\<rparr>, empty_world))))"
    by (simp add: stage_functions_def)
  with k agree show ?thesis
    by simp
qed

text \<open>
  C3. When the backend raises on the request of stage k + 1 (the request with index k
  among those of the run), that request is the run's last one, so no later stage is
  invoked; the k stages before it are in \<open>outputs\<close> with the contents the backend
  returned; \<open>run\<close> raises the backend's error instead of returning; no file is written.
\<close>

theorem run_aborts_at_failed_stage:
  assumes valid: "s \<in> set valid_scenarios"
      and init: "ScenarioWorkflow_init e s w0 = (Inr self, w)"
      and run: "run e (self, w) = (res, self', w')"
      and k: "k < length (new_calls w w')"
      and fails: "replies e (calls w) (new_calls w w') ! k = Raises m"
  shows "k < 4 \<and> length (new_calls w w') = Suc k \<and>
         calls w' = calls w @ new_calls w w' \<and>
         map system_of (new_calls w w') = take (Suc k) (stage_prompts s) \<and>
         list_all succeeded (take k (replies e (calls w) (new_calls w w'))) \<and>
         outputs self' =
           zip (take k stage_names) (map content_of (replies e (calls w) (new_calls w w'))) \<and>
         res = Inl (APIError m) \<and> files w' = files w"
proof -
  from init have st: "scenario_type self = s"
    by (simp add: init_fresh)
  from valid init run show ?thesis
  proof (cases rule: fresh_run_outcome)
    case (aborted j)
    then obtain qs where qs: "calls w' = calls w @ qs" "length qs = Suc j"
      and sys: "map system_of qs = take (Suc j) (stage_prompts s)"
      and oks: "list_all succeeded (take j (replies e (calls w) qs))"
      and bad: "\<not> succeeded (replies e (calls w) qs ! j)"
      and res: "res = Inl (failure (replies e (calls w) qs ! j))"
      and outs: "outputs self' = zip (take j stage_names) (map content_of (replies e (calls w) qs))"
      and files: "files w' = files w"
      by (auto simp: run_aborted_def st)
    from qs have new: "new_calls w w' = qs"
      by simp
    have "k = j"
    proof (rule ccontr)
      assume "k \<noteq> j"
      with k new qs have "k < j"
        by simp
      with oks qs have "succeeded (replies e (calls w) qs ! k)"
        by (simp add: list_all_length)
      with fails new show False
        by simp
    qed
    with aborted(1) qs sys oks res outs files fails new show ?thesis
      by simp
  next
    case (completed sc)
    then obtain qs where qs: "calls w' = calls w @ qs" "length qs = 4"
      and oks: "list_all succeeded (replies e (calls w) qs)"
      by (auto simp: run_completed_def)
    from qs have new: "new_calls w w' = qs"
      by simp
    from oks k new have "succeeded (replies e (calls w) qs ! k)"
      by (simp add: list_all_length)
    with fails new show ?thesis
      by simp
  qed
qed

theorem run_aborts_at_failed_stage_witness:
  "''conference'' \<in> set valid_scenarios \<and>
   ScenarioWorkflow_init failing_env ''conference'' empty_world = (Inr sample_workflow, empty_world) \<and>
   2 < length (new_calls empty_world (snd (snd (run failing_env (sample_workflow, empty_world))))) \<and>
   replies failing_env (calls empty_world)
     (new_calls empty_world (snd (snd (run failing_env (sample_workflow, empty_world))))) ! 2 =
     Raises ''timeout'' \<and>
   length (new_calls empty_world (snd (snd (run failing_env (sample_workflow, empty_world))))) = 3 \<and>
   map fst (outputs (fst (snd (run failing_env (sample_workflow, empty_world))))) =
     [''research'', ''analysis''] \<and>
   fst (run failing_env (sample_workflow, empty_world)) = Inl (APIError ''timeout'') \<and>
   files (snd (snd (run failing_env (sample_workflow, empty_world)))) = Map.empty"
proof -
  let ?out = "run failing_env (sample_workflow, empty_world)"
  have valid: "''conference'' \<in> set valid_scenarios"
    by (simp add: valid_scenarios_def)
  have init: "ScenarioWorkflow_init failing_env ''conference'' empty_world =
              (Inr sample_workflow, empty_world)"
    by (simp add: ScenarioWorkflow_init_def failing_env_def sample_config_def sample_workflow_def)
  have run: "run failing_env (sample_workflow, empty_world) = (fst ?out, fst (snd ?out), snd (snd ?out))"
    by simp
  have trace: "new_calls empty_world (snd (snd ?out)) =
     [\<lparr>req_model = ''gpt-4o-mini'', req_temperature = 1, req_max_tokens = 500,
       req_messages = [(''system'', the (map_of research_prompts ''conference'')),
                       (''user'', the (map_of research_user_messages ''conference''))]\<rparr>,
      \<lparr>req_model = ''gpt-4o-mini'', req_temperature = 1, req_max_tokens = 500,
       req_messages = [(''system'', the (map_of analysis_prompts ''conference'')),
                       (''user'', ''Research findings:'' @ nl @ ''ok'' @ nl @ nl @ ''Provide your analysis.'')]\<rparr>,
      \<lparr>req_model = ''gpt-4o-mini'', req_temperature = 1, req_max_tokens = 500,
       req_messages = [(''system'', the (map_of blueprint_prompts ''conference'')),
                       (''user'', ''Analysis:'' @ nl @ ''ok'' @ nl @ nl @ ''Create your design/blueprint.'')]\<rparr>]"
    by (simp add: new_calls_def run_def Let_def and_then_def phase_research_def phase_analysis_def
        phase_blueprint_def phase_review_def print_summary_def py_print_def now_def
        chat_completions_create_def first_content_def failing_env_def sample_workflow_def
        empty_world_def sample_config_def scenarios_table_def research_prompts_def
        research_user_messages_def analysis_prompts_def blueprint_prompts_def review_prompts_def)
  have k: "2 < length (new_calls empty_world (snd (snd ?out)))"
    by (simp add: trace)
  have fails: "replies failing_env (calls empty_world) (new_calls empty_world (snd (snd ?out))) ! 2 =
               Raises ''timeout''"
    unfolding trace by (simp add: empty_world_def failing_env_def)
  note aborts = run_aborts_at_failed_stage [OF valid init run k fails]
  from aborts have len: "length (new_calls empty_world (snd (snd ?out))) = Suc 2"
    by blast
  from aborts have res: "fst ?out = Inl (APIError ''timeout'')"
    by blast
  from aborts have untouched: "files (snd (snd ?out)) = files empty_world"
    by blast
  from aborts have "outputs (fst (snd ?out)) =
      zip (take 2 stage_names)
        (map content_of (replies failing_env (calls empty_world)
           (new_calls empty_world (snd (snd ?out)))))"
    by blast
  then have outs: "map fst (outputs (fst (snd ?out))) = [''research'', ''analysis'']"
    unfolding trace by (simp add: stage_names_def)
  from len have three: "length (new_calls empty_world (snd (snd ?out))) = 3"
    by simp
  from untouched have none: "files (snd (snd ?out)) = Map.empty"
    by (simp add: empty_world_def)
  from valid init k fails three outs res none show ?thesis
    by blast
qed

text \<open>
  C4. For every scenario identifier outside the configured set, \<open>main\<close> prints the
  "Invalid scenario" message and calls \<open>exit(1)\<close>: the process ends with status 1, the
  backend's log and the files are as before, and nothing of the environment (its
  configuration check, its backend) was consulted, since the outcome is the same for
  every environment.
\<close>

theorem main_rejects_unknown_scenario:
  assumes "chosen_scenario argv line = Some s"
      and "s \<notin> set valid_scenarios"
  shows "fst (main e argv line w) = Inl (SystemExit 1) \<and>
         fst (scenario_tester installed e argv line w) = 1 \<and>
         last (stdout (snd (main e argv line w))) =
           nl @ cross_mark @ '' Invalid scenario. Please choose from: '' @
           ''conference, marketing, research_paper, software'' @ nl \<and>
         calls (snd (scenario_tester installed e argv line w)) = calls w \<and>
         files (snd (scenario_tester installed e argv line w)) = files w \<and>
         main e argv line w = main e' argv line w"
proof (cases "length argv > 1")
  case True
  with assms have "argv ! 1 \<notin> set valid_scenarios"
    by (simp add: chosen_scenario_def)
  with True show ?thesis
    by (simp add: main_def scenario_tester_def exit_status_def Let_def py_print_def
                  valid_scenarios_def)
next
  case False
  with assms obtain l where l: "line = Some l" "py_strip l \<notin> set valid_scenarios"
    by (auto simp: chosen_scenario_def)
  with False show ?thesis
    by (simp add: main_def scenario_tester_def exit_status_def Let_def py_print_def py_input_def
                  valid_scenarios_def)
qed

theorem main_rejects_unknown_scenario_witness:
  "chosen_scenario [''scenario_tester.py'', ''bogus''] None = Some ''bogus'' \<and>
   ''bogus'' \<notin> set valid_scenarios \<and>
   fst (scenario_tester True answering_env [''scenario_tester.py'', ''bogus''] None empty_world) = 1 \<and>
   calls (snd (scenario_tester True answering_env [''scenario_tester.py'', ''bogus''] None empty_world)) = []"
proof -
  have chosen: "chosen_scenario [''scenario_tester.py'', ''bogus''] None = Some ''bogus''"
    by (simp add: chosen_scenario_def)
  have unknown: "''bogus'' \<notin> set valid_scenarios"
    by (simp add: valid_scenarios_def)
  from main_rejects_unknown_scenario [OF chosen unknown, where installed = True and e = answering_env and w = empty_world]
  have "fst (scenario_tester True answering_env [''scenario_tester.py'', ''bogus''] None empty_world) = 1 \<and>
        calls (snd (scenario_tester True answering_env [''scenario_tester.py'', ''bogus''] None
                 empty_world)) = calls empty_world"
    by blast
  with chosen unknown show ?thesis
    by (simp add: empty_world_def)
qed

text \<open>
  C6, as the code has it. When \<open>run\<close> returns normally for a fresh workflow of a
  configured scenario, all four outputs are texts and exactly the report file is
  written. Its name is \<open>scenario_<scenario>_<YYYYMMDD_HHMMSS>.txt\<close>, with the prefix
  \<open>scenario_\<close> and the time of the clock read made for it. Its content is the header
  (rule, title line, rule, "Generated" line with the time of the next clock read,
  "Model" line, blank line) followed by one section per stage in the order research,
  analysis, blueprint, review; a section is a blank line, a rule of dashes, the stage
  name in capitals followed by " PHASE", a rule of dashes, and the stage's output text.
\<close>

theorem report_written_on_success:
  assumes "s \<in> set valid_scenarios"
      and "ScenarioWorkflow_init e s w0 = (Inr self, w)"
      and "map_of scenarios_table s = Some sc"
      and "run e (self, w) = (Inr (), self', w')"
  shows "\<exists>t1 t2 t3 t4.
           outputs self' =
             [(''research'', Some t1), (''analysis'', Some t2),
              (''blueprint'', Some t3), (''review'', Some t4)] \<and>
           files w' =
             (files w)(''scenario_'' @ s @ ''_'' @
                       strftime ''%Y%m%d_%H%M%S'' (clock e (Suc (ticks w))) @ ''.txt'' \<mapsto>
               report_header sc (OPENAI_MODEL (Config e)) (clock e (Suc (Suc (ticks w)))) @
               report_section ''research'' t1 @ report_section ''analysis'' t2 @
               report_section ''blueprint'' t3 @ report_section ''review'' t4) \<and>
           map py_upper [''research'', ''analysis'', ''blueprint'', ''review''] =
             [''RESEARCH'', ''ANALYSIS'', ''BLUEPRINT'', ''REVIEW'']"
  using successful_run_report [OF assms] py_upper_stage_names
  by (simp add: report_name_def stage_names_def)

theorem report_written_on_success_witness:
  "''conference'' \<in> set valid_scenarios \<and>
   ScenarioWorkflow_init answering_env ''conference'' empty_world = (Inr sample_workflow, empty_world) \<and>
   map_of scenarios_table ''conference'' =
     Some \<lparr>title = ''3-Day AI/ML Conference Planning'',
           agents = \<lparr>agent_research = ''Conference Research Specialist'',
                     agent_analysis = ''Attendee & Speaker Analyst'',
                     agent_blueprint = ''Agenda Designer'',
                     agent_review = ''Conference Director''\<rparr>,
           context_text = ''planning a 3-day AI/ML conference for 500 attendees''\<rparr> \<and>
   fst (run answering_env (sample_workflow, empty_world)) = Inr () \<and>
   dom (files (snd (snd (run answering_env (sample_workflow, empty_world))))) =
     {''scenario_conference_20250102_030406.txt''} \<and>
   (\<exists>t1 t2 t3 t4.
      files (snd (snd (run answering_env (sample_workflow, empty_world))))
        ''scenario_conference_20250102_030406.txt'' =
      Some (replicate 80 (CHR ''='') @ nl @
            ''AUTOGEN SCENARIO: 3-Day AI/ML Conference Planning'' @ nl @
            replicate 80 (CHR ''='') @ nl @
            ''Generated: 2025-01-02 03:04:07'' @ nl @
            ''Model: gpt-4o-mini'' @ nl @ nl @
            report_section ''research'' t1 @ report_section ''analysis'' t2 @
            report_section ''blueprint'' t3 @ report_section ''review'' t4))"
proof -
  let ?out = "run answering_env (sample_workflow, empty_world)"
  let ?sc = "\<lparr>title = ''3-Day AI/ML Conference Planning'',
           agents = \<lparr>agent_research = ''Conference Research Specialist'',
                     agent_analysis = ''Attendee & Speaker Analyst'',
                     agent_blueprint = ''Agenda Designer'',
                     agent_review = ''Conference Director''\<rparr>,
           context_text = ''planning a 3-day AI/ML conference for 500 attendees''\<rparr>"
  have valid: "''conference'' \<in> set valid_scenarios"
    by (simp add: valid_scenarios_def)
  have init: "ScenarioWorkflow_init answering_env ''conference'' empty_world =
              (Inr sample_workflow, empty_world)"
    by (simp add: ScenarioWorkflow_init_def answering_env_def sample_config_def sample_workflow_def)
  have table: "map_of scenarios_table ''conference'' = Some ?sc"
    by (simp add: scenarios_table_def)
  have split: "?out = (fst ?out, fst (snd ?out), snd (snd ?out))"
    by simp
  from answering_run [OF split] have ok: "fst ?out = Inr ()"
    and dom: "dom (files (snd (snd ?out))) = {''scenario_conference_20250102_030406.txt''}"
    by simp_all
  from split ok have run: "?out = (Inr (), fst (snd ?out), snd (snd ?out))"
    by simp
  have stamp: "''scenario_'' @ ''conference'' @ ''_'' @
      strftime ''%Y%m%d_%H%M%S'' (clock answering_env (Suc (ticks empty_world))) @ ''.txt'' =
      ''scenario_conference_20250102_030406.txt''"
    using report_name_sample by (simp add: report_name_def answering_env_def empty_world_def)
  have header: "report_header ?sc (OPENAI_MODEL (Config answering_env))
        (clock answering_env (Suc (Suc (ticks empty_world)))) =
      replicate 80 (CHR ''='') @ nl @
      ''AUTOGEN SCENARIO: 3-Day AI/ML Conference Planning'' @ nl @
      replicate 80 (CHR ''='') @ nl @
      ''Generated: 2025-01-02 03:04:07'' @ nl @
      ''Model: gpt-4o-mini'' @ nl @ nl"
    by (simp add: report_header_def answering_env_def sample_config_def empty_world_def
                  sample_clock_def strftime.simps directive.simps dec.simps zfill_def
                  char_of_def bit_Suc_0_iff)
  from report_written_on_success [OF valid init table run]
  obtain t1 t2 t3 t4 where
    "files (snd (snd ?out)) =
       (files empty_world)(''scenario_'' @ ''conference'' @ ''_'' @
          strftime ''%Y%m%d_%H%M%S'' (clock answering_env (Suc (ticks empty_world))) @ ''.txt'' \<mapsto>
         report_header ?sc (OPENAI_MODEL (Config answering_env))
           (clock answering_env (Suc (Suc (ticks empty_world)))) @
         report_section ''research'' t1 @ report_section ''analysis'' t2 @
         report_section ''blueprint'' t3 @ report_section ''review'' t4)"
    by blast
  then have "files (snd (snd ?out)) ''scenario_conference_20250102_030406.txt'' =
      Some (replicate 80 (CHR ''='') @ nl @
            ''AUTOGEN SCENARIO: 3-Day AI/ML Conference Planning'' @ nl @
            replicate 80 (CHR ''='') @ nl @
            ''Generated: 2025-01-02 03:04:07'' @ nl @
            ''Model: gpt-4o-mini'' @ nl @ nl @
            report_section ''research'' t1 @ report_section ''analysis'' t2 @
            report_section ''blueprint'' t3 @ report_section ''review'' t4)"
    unfolding stamp header by simp
  with valid init table ok dom show ?thesis
    by blast
qed

theorem report_file_name_counterexample:
  "fst (run answering_env (sample_workflow, empty_world)) = Inr () \<and>
   strftime ''%Y%m%d_%H%M%S'' (sample_clock 1) = ''20250102_030406'' \<and>
   files (snd (snd (run answering_env (sample_workflow, empty_world))))
     ''conference_20250102_030406.txt'' = None \<and>
   dom (files (snd (snd (run answering_env (sample_workflow, empty_world))))) =
     {''scenario_conference_20250102_030406.txt''}"
proof -
  let ?out = "run answering_env (sample_workflow, empty_world)"
  have split: "?out = (fst ?out, fst (snd ?out), snd (snd ?out))"
    by simp
  from answering_run [OF split] have ok: "fst ?out = Inr ()"
    and dom: "dom (files (snd (snd ?out))) = {''scenario_conference_20250102_030406.txt''}"
    by simp_all
  have "''conference_20250102_030406.txt'' \<notin> dom (files (snd (snd ?out)))"
    unfolding dom by simp
  then have none: "files (snd (snd ?out)) ''conference_20250102_030406.txt'' = None"
    by blast
  have stamp: "strftime ''%Y%m%d_%H%M%S'' (sample_clock 1) = ''20250102_030406''"
    by (simp add: sample_clock_def strftime.simps directive.simps dec.simps zfill_def
                  char_of_def bit_Suc_0_iff)
  from ok stamp none dom show ?thesis
    by blast
qed

text \<open>
  C7. When the configuration does not validate, either script ends with exit status 1
  and has issued no backend request: the scenario tester's request log and the crew
  script's kickoff log are as before, and no file is written. The scenario tester
  reports "ERROR: Configuration validation failed!" once a configured scenario has been
  chosen (the check sits in the workflow's constructor); the crew script reports its
  own message as its last output.
\<close>

theorem configuration_failure_exits_before_any_call:
  "(\<not> validate_setup (Config e) \<longrightarrow>
      fst (scenario_tester installed e argv line w) = 1 \<and>
      calls (snd (scenario_tester installed e argv line w)) = calls w \<and>
      files (snd (scenario_tester installed e argv line w)) = files w \<and>
      (chosen_scenario argv line = Some s \<and> s \<in> set valid_scenarios \<longrightarrow>
         last (stdout (snd (scenario_tester True e argv line w))) =
           ''ERROR: Configuration validation failed!'' @ nl)) \<and>
   (\<not> validate_config ce \<longrightarrow>
      fst (crewai_demo ce argv' w) = 1 \<and>
      kickoffs (snd (crewai_demo ce argv' w)) = kickoffs w \<and>
      calls (snd (crewai_demo ce argv' w)) = calls w \<and>
      files (snd (crewai_demo ce argv' w)) = files w \<and>
      last (stdout (snd (crewai_demo ce argv' w))) =
        cross_mark @ '' Configuration validation failed. Please set up your .env file.'' @ nl)"
  using autogen_config_failure [of e installed argv line w]
        autogen_config_failure_message [of e argv line s w]
        crewai_config_failure [of ce argv' w]
  by blast

theorem configuration_failure_exits_before_any_call_witness:
  "\<not> validate_setup (Config unconfigured_env) \<and>
   chosen_scenario [''scenario_tester.py'', ''software''] None = Some ''software'' \<and>
   ''software'' \<in> set valid_scenarios \<and>
   \<not> validate_config unconfigured_crew_env \<and>
   fst (scenario_tester True unconfigured_env [''scenario_tester.py'', ''software''] None empty_world) = 1 \<and>
   calls (snd (scenario_tester True unconfigured_env [''scenario_tester.py'', ''software''] None
            empty_world)) = [] \<and>
   last (stdout (snd (scenario_tester True unconfigured_env [''scenario_tester.py'', ''software''] None
                   empty_world))) = ''ERROR: Configuration validation failed!'' @ nl \<and>
   fst (crewai_demo unconfigured_crew_env [''crewai_demo.py''] empty_world) = 1 \<and>
   kickoffs (snd (crewai_demo unconfigured_crew_env [''crewai_demo.py''] empty_world)) = []"
proof -
  have a: "\<not> validate_setup (Config unconfigured_env)"
    by (simp add: unconfigured_env_def sample_config_def)
  have b: "chosen_scenario [''scenario_tester.py'', ''software''] None = Some ''software''"
    by (simp add: chosen_scenario_def)
  have c: "''software'' \<in> set valid_scenarios"
    by (simp add: valid_scenarios_def)
  have d: "\<not> validate_config unconfigured_crew_env"
    by (simp add: unconfigured_crew_env_def)
  note both = configuration_failure_exits_before_any_call
    [where e = unconfigured_env and installed = True
       and argv = "[''scenario_tester.py'', ''software'']" and line = None and s = "''software''"
       and w = empty_world and ce = unconfigured_crew_env and argv' = "[''crewai_demo.py'']"]
  from both a b c d
  have "fst (scenario_tester True unconfigured_env [''scenario_tester.py'', ''software''] None
              empty_world) = 1 \<and>
        calls (snd (scenario_tester True unconfigured_env [''scenario_tester.py'', ''software''] None
                 empty_world)) = calls empty_world \<and>
        last (stdout (snd (scenario_tester True unconfigured_env [''scenario_tester.py'', ''software'']
                        None empty_world))) = ''ERROR: Configuration validation failed!'' @ nl \<and>
        fst (crewai_demo unconfigured_crew_env [''crewai_demo.py''] empty_world) = 1 \<and>
        kickoffs (snd (crewai_demo unconfigured_crew_env [''crewai_demo.py''] empty_world)) =
          kickoffs empty_world"
    by blast
  with a b c d show ?thesis
    by (simp add: empty_world_def)
qed

text \<open>
  C8, as the code has it. A run of a fresh workflow of a configured scenario appends
  its own requests to the backend's log and fills \<open>outputs\<close>; it also prints, reads the
  clock and, through \<open>print_summary\<close>, writes the report file. Everything else stays: the
  workflow's other attributes, standard error, the process environment, the kickoff
  log and every file other than the report. A run in which some request is not
  answered writes no file at all.
\<close>

theorem run_effects_are_confined:
  assumes valid: "s \<in> set valid_scenarios"
      and init: "ScenarioWorkflow_init e s w0 = (Inr self, w)"
      and run: "run e (self, w) = (res, self', w')"
  shows "client self' = client self \<and> model self' = model self \<and>
         scenario_type self' = scenario_type self \<and> scenarios self' = scenarios self \<and>
         stderr w' = stderr w \<and> environ w' = environ w \<and> kickoffs w' = kickoffs w \<and>
         calls w' = calls w @ new_calls w w' \<and>
         (name \<noteq> report_name s (clock e (Suc (ticks w))) \<longrightarrow> files w' name = files w name) \<and>
         (\<not> list_all succeeded (replies e (calls w) (new_calls w w')) \<longrightarrow> files w' = files w)"
proof -
  from init have st: "scenario_type self = s"
    by (simp add: init_fresh)
  from fresh_run_frame [OF valid init run]
  have frame: "client self' = client self \<and> model self' = model self \<and>
         scenario_type self' = scenario_type self \<and> scenarios self' = scenarios self \<and>
         stderr w' = stderr w \<and> environ w' = environ w \<and> kickoffs w' = kickoffs w"
    by (simp add: same_workflow_def)
  from valid init run
  have "calls w' = calls w @ new_calls w w' \<and>
        (name \<noteq> report_name s (clock e (Suc (ticks w))) \<longrightarrow> files w' name = files w name) \<and>
        (\<not> list_all succeeded (replies e (calls w) (new_calls w w')) \<longrightarrow> files w' = files w)"
  proof (cases rule: fresh_run_outcome)
    case (aborted k)
    then obtain qs where "calls w' = calls w @ qs" "files w' = files w"
      by (auto simp: run_aborted_def)
    then show ?thesis
      by simp
  next
    case (completed sc)
    then obtain qs where qs: "calls w' = calls w @ qs"
      and oks: "list_all succeeded (replies e (calls w) qs)"
      and files: "files w' = (files w)(report_name s (clock e (Suc (ticks w))) \<mapsto>
                    snd (write_phases (outputs self') stage_names
                           (report_header sc (model self) (clock e (Suc (Suc (ticks w)))))))"
      by (auto simp: run_completed_def st)
    from qs have "new_calls w w' = qs"
      by simp
    with qs oks files show ?thesis
      by simp
  qed
  with frame show ?thesis
    by blast
qed

theorem run_effects_are_confined_witness:
  "''conference'' \<in> set valid_scenarios \<and>
   ScenarioWorkflow_init failing_env ''conference'' empty_world = (Inr sample_workflow, empty_world) \<and>
   ''notes.txt'' \<noteq> report_name ''conference'' (clock failing_env (Suc (ticks empty_world))) \<and>
   \<not> list_all succeeded
       (replies failing_env (calls empty_world)
          (new_calls empty_world (snd (snd (run failing_env (sample_workflow, empty_world)))))) \<and>
   stderr (snd (snd (run failing_env (sample_workflow, empty_world)))) = [] \<and>
   files (snd (snd (run failing_env (sample_workflow, empty_world)))) = files empty_world"
proof -
  let ?out = "run failing_env (sample_workflow, empty_world)"
  have valid: "''conference'' \<in> set valid_scenarios"
    by (simp add: valid_scenarios_def)
  have init: "ScenarioWorkflow_init failing_env ''conference'' empty_world =
              (Inr sample_workflow, empty_world)"
    by (simp add: ScenarioWorkflow_init_def failing_env_def sample_config_def sample_workflow_def)
  have run: "?out = (fst ?out, fst (snd ?out), snd (snd ?out))"
    by simp
  have other: "''notes.txt'' \<noteq> report_name ''conference'' (clock failing_env (Suc (ticks empty_world)))"
    by (simp add: report_name_def)
  have "calls empty_world = []"
    by (simp add: empty_world_def)
  from failing_run_trace [OF this]
  have unanswered: "\<not> list_all succeeded
       (replies failing_env (calls empty_world) (new_calls empty_world (snd (snd ?out))))"
    by (simp add: empty_world_def failing_env_def)
  note confined = run_effects_are_confined [OF valid init run, where name = "''notes.txt''"]
  from confined have "stderr (snd (snd ?out)) = stderr empty_world"
    by blast
  then have quiet: "stderr (snd (snd ?out)) = []"
    by (simp add: empty_world_def)
  from confined unanswered have same: "files (snd (snd ?out)) = files empty_world"
    by blast
  from valid init other unanswered quiet same show ?thesis
    by blast
qed

theorem run_writes_file_counterexample:
  "files (snd (snd (run answering_env (sample_workflow, empty_world))))
     ''scenario_conference_20250102_030406.txt'' \<noteq>
   files empty_world ''scenario_conference_20250102_030406.txt''"
proof -
  let ?out = "run answering_env (sample_workflow, empty_world)"
  have split: "?out = (fst ?out, fst (snd ?out), snd (snd ?out))"
    by simp
  from answering_run [OF split]
  have "files (snd (snd ?out)) ''scenario_conference_20250102_030406.txt'' \<noteq> None"
    by simp
  then show ?thesis
    by (simp add: empty_world_def)
qed

text \<open>
  C10. Scenario tester: once a configured scenario is chosen and the configuration
  validates, the process ends with exit status 0 whatever the backend does; when a
  request of the run raises, \<open>main\<close> returns normally, its last output is the error
  message and the traceback of the backend's error goes to standard error. Startup
  analysis script: when the kickoff raises an exception, the process ends with exit
  status 0 after printing the error message and the traceback, and it ends with exit
  status 0 as well when the kickoff returns.
\<close>

theorem main_swallows_backend_errors:
  "(chosen_scenario argv line = Some s \<and> s \<in> set valid_scenarios \<and> validate_setup (Config e) \<longrightarrow>
      fst (scenario_tester True e argv line w) = 0 \<and>
      (k < length (new_calls w (snd (main e argv line w))) \<and>
       replies e (calls w) (new_calls w (snd (main e argv line w))) ! k = Raises m \<longrightarrow>
         fst (main e argv line w) = Inr () \<and>
         last (stdout (snd (main e argv line w))) =
           nl @ cross_mark @ '' Error during workflow execution: '' @ m @ nl \<and>
         stderr (snd (main e argv line w)) = stderr w @ [APIError m])) \<and>
   (validate_config ce \<and> (\<forall>c i. kickoff ce c i = Inl x) \<and> is_Exception x \<longrightarrow>
      fst (crewai_demo ce argv' w') = 0 \<and>
      stderr (snd (crewai_demo ce argv' w')) = stderr w' @ [x] \<and>
      nl @ cross_mark @ '' Error during crew execution: '' @ exn_str x @ nl
        \<in> set (stdout (snd (crewai_demo ce argv' w')))) \<and>
   (validate_config ce' \<and> (\<forall>c i. kickoff ce' c i = Inr r) \<longrightarrow>
      fst (crewai_demo ce' argv'' w'') = 0)"
proof -
  have tester:
    "fst (scenario_tester True e argv line w) = 0 \<and>
      (k < length (new_calls w (snd (main e argv line w))) \<and>
       replies e (calls w) (new_calls w (snd (main e argv line w))) ! k = Raises m \<longrightarrow>
         fst (main e argv line w) = Inr () \<and>
         last (stdout (snd (main e argv line w))) =
           nl @ cross_mark @ '' Error during workflow execution: '' @ m @ nl \<and>
         stderr (snd (main e argv line w)) = stderr w @ [APIError m])"
    if chosen: "chosen_scenario argv line = Some s" and valid: "s \<in> set valid_scenarios"
      and conf: "validate_setup (Config e)"
  proof -
    from chosen valid conf obtain w1 self res self' w3 where
      w1: "calls w1 = calls w" "stderr w1 = stderr w"
      and init: "ScenarioWorkflow_init e s w1 = (Inr self, w1)"
      and run: "run e (self, w1) = (res, self', w3)"
      and main: "main e argv line w =
         (case res of
            Inl x \<Rightarrow> workflow_error x w3
          | Inr u \<Rightarrow> (Inr (), py_print (nl @ check_mark @ '' Scenario completed successfully!'') w3))"
      by (rule main_outcome)
    from run_result_kinds [OF valid init run] main
    have returns: "fst (main e argv line w) = Inr ()"
      by (auto simp: workflow_error_spec)
    then have status: "fst (scenario_tester True e argv line w) = 0"
      by (simp add: scenario_tester_def exit_status_returned)
    have caught: "fst (main e argv line w) = Inr () \<and>
           last (stdout (snd (main e argv line w))) =
             nl @ cross_mark @ '' Error during workflow execution: '' @ m @ nl \<and>
           stderr (snd (main e argv line w)) = stderr w @ [APIError m]"
      if raised: "k < length (new_calls w (snd (main e argv line w))) \<and>
            replies e (calls w) (new_calls w (snd (main e argv line w))) ! k = Raises m"
    proof -
      from run_result_kinds [OF valid init run] main
      have "calls (snd (main e argv line w)) = calls w3"
        by (auto simp: workflow_error_spec py_print_frame)
      then have "new_calls w (snd (main e argv line w)) = new_calls w1 w3"
        by (simp add: new_calls_def w1)
      with raised have "res = Inl (APIError m)"
        using raised_reply_ends_run [OF valid init run, of k m] w1 by simp
      moreover from fresh_run_frame [OF valid init run] w1 have "stderr w3 = stderr w"
        by simp
      ultimately have "last (stdout (snd (main e argv line w))) =
          nl @ cross_mark @ '' Error during workflow execution: '' @ m @ nl"
        and "stderr (snd (main e argv line w)) = stderr w @ [APIError m]"
        using main workflow_error_spec [of "APIError m" w3] by simp_all
      with returns show ?thesis
        by simp
    qed
    from status caught show ?thesis
      by blast
  qed
  have raising:
    "fst (crewai_demo ce argv' w') = 0 \<and>
      stderr (snd (crewai_demo ce argv' w')) = stderr w' @ [x] \<and>
      nl @ cross_mark @ '' Error during crew execution: '' @ exn_str x @ nl
        \<in> set (stdout (snd (crewai_demo ce argv' w')))"
    if conf: "validate_config ce" and raises: "\<forall>c i. kickoff ce c i = Inl x"
      and exc: "is_Exception x"
  proof -
    from raises have "\<And>c i. kickoff ce c i = Inl x"
      by simp
    from crewai_main_raises [OF conf this] obtain W where
      "crewai_demo ce argv' w' = exit_status (crew_error x W)" and "stderr W = stderr w'"
      unfolding crewai_demo_def by metis
    with crew_error_spec [OF exc, of W] show ?thesis
      by (cases "crew_error x W") (simp add: exit_status_def)
  qed
  have returning: "fst (crewai_demo ce' argv'' w'') = 0"
    if conf: "validate_config ce'" and returns: "\<forall>c i. kickoff ce' c i = Inr r"
  proof -
    from returns have "\<And>c i. kickoff ce' c i = Inr r"
      by simp
    from crewai_main_returns [OF conf this] show ?thesis
      by (simp add: crewai_demo_def exit_status_returned)
  qed
  from tester raising returning show ?thesis
    by blast
qed

theorem main_swallows_backend_errors_witness:
  "chosen_scenario [''scenario_tester.py'', ''conference''] None = Some ''conference'' \<and>
   ''conference'' \<in> set valid_scenarios \<and>
   validate_setup (Config failing_env) \<and>
   2 < length (new_calls empty_world
                 (snd (main failing_env [''scenario_tester.py'', ''conference''] None empty_world))) \<and>
   replies failing_env (calls empty_world)
     (new_calls empty_world
        (snd (main failing_env [''scenario_tester.py'', ''conference''] None empty_world))) ! 2 =
     Raises ''timeout'' \<and>
   validate_config raising_crew_env \<and>
   (\<forall>c i. kickoff raising_crew_env c i = Inl (APIError ''rate limit'')) \<and>
   is_Exception (APIError ''rate limit'') \<and>
   validate_config answering_crew_env \<and>
   (\<forall>c i. kickoff answering_crew_env c i = Inr ''report'') \<and>
   fst (scenario_tester True failing_env [''scenario_tester.py'', ''conference''] None empty_world) = 0 \<and>
   stderr (snd (main failing_env [''scenario_tester.py'', ''conference''] None empty_world)) =
     [APIError ''timeout''] \<and>
   fst (crewai_demo raising_crew_env [''crewai_demo.py''] empty_world) = 0 \<and>
   stderr (snd (crewai_demo raising_crew_env [''crewai_demo.py''] empty_world)) =
     [APIError ''rate limit''] \<and>
   fst (crewai_demo answering_crew_env [''crewai_demo.py''] empty_world) = 0"
proof -
  let ?argv = "[''scenario_tester.py'', ''conference'']"
  let ?W = "snd (main failing_env ?argv None empty_world)"
  have chosen: "chosen_scenario ?argv None = Some ''conference''"
    by (simp add: chosen_scenario_def)
  have valid: "''conference'' \<in> set valid_scenarios"
    by (simp add: valid_scenarios_def)
  have conf: "validate_setup (Config failing_env)"
    by (simp add: failing_env_def sample_config_def)
  from main_trace [OF chosen valid conf, of empty_world] obtain w1 self res self' w3 where
    w1: "calls w1 = calls empty_world"
    and init: "ScenarioWorkflow_init failing_env ''conference'' w1 = (Inr self, w1)"
    and run: "run failing_env (self, w1) = (res, self', w3)"
    and new: "new_calls empty_world ?W = new_calls w1 w3"
    by blast
  from init have self: "self = sample_workflow"
    by (simp add: ScenarioWorkflow_init_def failing_env_def sample_config_def sample_workflow_def)
  from w1 have "calls w1 = []"
    by (simp add: empty_world_def)
  from failing_run_trace [OF this] run self new
  have trace: "new_calls empty_world ?W =
     [\<lparr>req_model = ''gpt-4o-mini'', req_temperature = 1, req_max_tokens = 500,
       req_messages = [(''system'', the (map_of research_prompts ''conference'')),
                       (''user'', the (map_of research_user_messages ''conference''))]\<rparr>,
      \<lparr>req_model = ''gpt-4o-mini'', req_temperature = 1, req_max_tokens = 500,
       req_messages = [(''system'', the (map_of analysis_prompts ''conference'')),
                       (''user'', ''Research findings:'' @ nl @ ''ok'' @ nl @ nl @ ''Provide your analysis.'')]\<rparr>,
      \<lparr>req_model = ''gpt-4o-mini'', req_temperature = 1, req_max_tokens = 500,
       req_messages = [(''system'', the (map_of blueprint_prompts ''conference'')),
                       (''user'', ''Analysis:'' @ nl @ ''ok'' @ nl @ nl @ ''Create your design/blueprint.'')]\<rparr>]"
    by simp
  have k: "2 < length (new_calls empty_world ?W)"
    by (simp add: trace)
  have raised: "replies failing_env (calls empty_world) (new_calls empty_world ?W) ! 2 =
                Raises ''timeout''"
    unfolding trace by (simp add: empty_world_def failing_env_def)
  have crew_conf: "validate_config raising_crew_env"
    and crew_raises: "\<forall>c i. kickoff raising_crew_env c i = Inl (APIError ''rate limit'')"
    and exc: "is_Exception (APIError ''rate limit'')"
    by (simp_all add: raising_crew_env_def)
  have crew_conf': "validate_config answering_crew_env"
    and crew_returns: "\<forall>c i. kickoff answering_crew_env c i = Inr ''report''"
    by (simp_all add: answering_crew_env_def)
  note all = main_swallows_backend_errors
    [where argv = ?argv and line = None and s = "''conference''" and e = failing_env
       and w = empty_world and k = 2 and m = "''timeout''"
       and ce = raising_crew_env and x = "APIError ''rate limit''"
       and argv' = "[''crewai_demo.py'']" and w' = empty_world
       and ce' = answering_crew_env and r = "''report''"
       and argv'' = "[''crewai_demo.py'']" and w'' = empty_world]
  from all chosen valid conf k raised
  have a: "fst (scenario_tester True failing_env ?argv None empty_world) = 0"
    and b: "stderr ?W = stderr empty_world @ [APIError ''timeout'']"
    by blast+
  from all crew_conf crew_raises exc
  have c: "fst (crewai_demo raising_crew_env [''crewai_demo.py''] empty_world) = 0"
    and d: "stderr (snd (crewai_demo raising_crew_env [''crewai_demo.py''] empty_world)) =
            stderr empty_world @ [APIError ''rate limit'']"
    by blast+
  from all crew_conf' crew_returns
  have f: "fst (crewai_demo answering_crew_env [''crewai_demo.py''] empty_world) = 0"
    by blast
  from b have b': "stderr ?W = [APIError ''timeout'']"
    by (simp add: empty_world_def)
  from d have d': "stderr (snd (crewai_demo raising_crew_env [''crewai_demo.py''] empty_world)) =
            [APIError ''rate limit'']"
    by (simp add: empty_world_def)
  from chosen valid conf k raised crew_conf crew_raises exc crew_conf' crew_returns a b' c d' f
  show ?thesis
    by blast
qed

end
